theory Spec2Isabelle
  imports Main
begin

section \<open>Errors and outcomes of asynchronous operations\<close>

text \<open>
  \<^verbatim>\<open>utils/errors.ts\<close>: the error codes of \<^verbatim>\<open>ElementCallError\<close> and the values a
  promise of the program can reject with. A rejection value is one of the repository's
  \<^verbatim>\<open>ElementCallError\<close> subclasses, livekit's \<^verbatim>\<open>ConnectionError\<close> (with its optional
  numeric \<^verbatim>\<open>status\<close>), another \<^verbatim>\<open>Error\<close> (name and message), one of the two errors
  \<^verbatim>\<open>getLiveKitJWT\<close> builds by string concatenation (kept structured: the status, or the
  caught value), a thrown value that is no \<^verbatim>\<open>Error\<close> instance but has properties to
  read (a string, a number, a plain object), or a thrown \<^verbatim>\<open>undefined\<close> or \<^verbatim>\<open>null\<close>.
\<close>

datatype ErrorCode =
    MISSING_MATRIX_RTC_FOCUS
  | CONNECTION_LOST_ERROR
  | MEMBERSHIP_MANAGER_UNRECOVERABLE
  | INSUFFICIENT_CAPACITY_ERROR
  | E2EE_NOT_SUPPORTED
  | OPEN_ID_ERROR
  | UNKNOWN_ERROR

datatype thrown =
    JsError string string
  | ConnectionError "int option"
  | SFUConfigFetchStatusError int
  | SFUConfigFetchExceptionError thrown
  | MatrixRTCFocusMissingError string
  | InsufficientCapacityError
  | UnknownCallError thrown
  | FailToGetOpenIdToken thrown
  | NonError string
  | Nullish

text \<open>\<^verbatim>\<open>e instanceof ElementCallError\<close>.\<close>

fun isElementCallError :: "thrown \<Rightarrow> bool" where
  "isElementCallError (MatrixRTCFocusMissingError d) = True"
| "isElementCallError InsufficientCapacityError = True"
| "isElementCallError (UnknownCallError e) = True"
| "isElementCallError (FailToGetOpenIdToken e) = True"
| "isElementCallError (JsError n m) = False"
| "isElementCallError (ConnectionError s) = False"
| "isElementCallError (SFUConfigFetchStatusError s) = False"
| "isElementCallError (SFUConfigFetchExceptionError e) = False"
| "isElementCallError (NonError v) = False"
| "isElementCallError Nullish = False"

text \<open>\<^verbatim>\<open>e instanceof Error\<close>.\<close>

fun isError :: "thrown \<Rightarrow> bool" where
  "isError (NonError v) = False"
| "isError Nullish = False"
| "isError (JsError n m) = True"
| "isError (ConnectionError s) = True"
| "isError (SFUConfigFetchStatusError s) = True"
| "isError (SFUConfigFetchExceptionError e) = True"
| "isError (MatrixRTCFocusMissingError d) = True"
| "isError InsufficientCapacityError = True"
| "isError (UnknownCallError e) = True"
| "isError (FailToGetOpenIdToken e) = True"

text \<open>The \<^verbatim>\<open>code\<close> field the constructors of the subclasses set.\<close>

fun errorCode :: "thrown \<Rightarrow> ErrorCode option" where
  "errorCode (MatrixRTCFocusMissingError d) = Some MISSING_MATRIX_RTC_FOCUS"
| "errorCode InsufficientCapacityError = Some INSUFFICIENT_CAPACITY_ERROR"
| "errorCode (UnknownCallError e) = Some UNKNOWN_ERROR"
| "errorCode (FailToGetOpenIdToken e) = Some OPEN_ID_ERROR"
| "errorCode (JsError n m) = None"
| "errorCode (ConnectionError s) = None"
| "errorCode (SFUConfigFetchStatusError s) = None"
| "errorCode (SFUConfigFetchExceptionError e) = None"
| "errorCode (NonError v) = None"
| "errorCode Nullish = None"

text \<open>The \<^verbatim>\<open>name\<close> property read by \<^verbatim>\<open>(e as DOMException).name\<close>: absent on a
  thrown value that is no \<^verbatim>\<open>Error\<close>. On \<^verbatim>\<open>undefined\<close> and \<^verbatim>\<open>null\<close> the read itself
  throws a \<^verbatim>\<open>TypeError\<close>: \<open>hasProperties\<close> tells whether it can be made.\<close>

fun hasProperties :: "thrown \<Rightarrow> bool" where
  "hasProperties Nullish = False"
| "hasProperties (NonError v) = True"
| "hasProperties (JsError n m) = True"
| "hasProperties (ConnectionError s) = True"
| "hasProperties (SFUConfigFetchStatusError s) = True"
| "hasProperties (SFUConfigFetchExceptionError e) = True"
| "hasProperties (MatrixRTCFocusMissingError d) = True"
| "hasProperties InsufficientCapacityError = True"
| "hasProperties (UnknownCallError e) = True"
| "hasProperties (FailToGetOpenIdToken e) = True"

fun errorName :: "thrown \<Rightarrow> string option" where
  "errorName (JsError n m) = Some n"
| "errorName (NonError v) = None"
| "errorName Nullish = None"
| "errorName (ConnectionError s) = Some ''ConnectionError''"
| "errorName (SFUConfigFetchStatusError s) = Some ''Error''"
| "errorName (SFUConfigFetchExceptionError e) = Some ''Error''"
| "errorName (MatrixRTCFocusMissingError d) = Some ''Error''"
| "errorName InsufficientCapacityError = Some ''Error''"
| "errorName (UnknownCallError e) = Some ''Error''"
| "errorName (FailToGetOpenIdToken e) = Some ''Error''"

text \<open>A settled promise: resolved with a value, or rejected with a thrown value.\<close>

datatype 'a outcome = Resolved 'a | Rejected thrown

section \<open>SFUConfig (\<^verbatim>\<open>livekit/openIDSFU.ts\<close>)\<close>

record SFUConfig =
  url :: string
  jwt :: string

text \<open>An optional argument \<^verbatim>\<open>a?: SFUConfig\<close> is \<open>None\<close> when \<^verbatim>\<open>undefined\<close>.\<close>

definition sfuConfigEquals :: "SFUConfig option \<Rightarrow> SFUConfig option \<Rightarrow> bool" where
  "sfuConfigEquals a b =
     (if a = None \<and> b = None then True
      else if a = None \<or> b = None then False
      else jwt (the a) = jwt (the b) \<and> url (the a) = url (the b))"

section \<open>Focus resolution (\<^verbatim>\<open>rtcSessionHelpers.ts\<close>)\<close>

text \<open>
  A focus object as it travels through \<^verbatim>\<open>makePreferredLivekitFoci\<close>: its \<^verbatim>\<open>type\<close>
  tag and the two properties the function reads or writes, each possibly absent.
\<close>

record Focus =
  focus_type :: string
  livekit_service_url :: "string option"
  livekit_alias :: "string option"

text \<open>An element of the well-known array: a falsy value, or an object.\<close>

datatype wkEntry = Falsy | Obj Focus

text \<open>
  What the function reads from its surroundings: \<^verbatim>\<open>rtcSession.getFocusInUse()\<close>,
  \<^verbatim>\<open>rtcSession.room.client.getDomain()\<close>, the value under the key
  \<^verbatim>\<open>org.matrix.msc4143.rtc_foci\<close> of the raw client config that
  \<^verbatim>\<open>AutoDiscovery.getRawClientConfig\<close> resolves with (\<open>None\<close> when the config or the
  key is missing or the value is no array), and
  \<^verbatim>\<open>Config.get().livekit?.livekit_service_url\<close>.
\<close>

record ResolverInput =
  focusInUse :: "Focus option"
  domain :: "string option"
  wellKnownFoci :: "wkEntry list option"
  urlFromConf :: "string option"

text \<open>Truthiness of an optional string: defined and not empty.\<close>

definition truthy :: "string option \<Rightarrow> bool" where
  "truthy s = (case s of None \<Rightarrow> False | Some v \<Rightarrow> v \<noteq> [])"

text \<open>\<^verbatim>\<open>.filter((f) => !!f)\<close>: the objects among the entries, in order.\<close>

fun dropFalsy :: "wkEntry list \<Rightarrow> Focus list" where
  "dropFalsy [] = []"
| "dropFalsy (Falsy # es) = dropFalsy es"
| "dropFalsy (Obj f # es) = f # dropFalsy es"

text \<open>
  \<^verbatim>\<open>makePreferredLivekitFoci(rtcSession, livekitAlias)\<close>. The type guards
  \<^verbatim>\<open>isLivekitFocus\<close> and \<^verbatim>\<open>isLivekitFocusConfig\<close> are imported from matrix-js-sdk;
  they are the first two parameters. The result is the rejection value or the list.
\<close>

definition makePreferredLivekitFoci ::
  "(Focus \<Rightarrow> bool) \<Rightarrow> (Focus \<Rightarrow> bool) \<Rightarrow> ResolverInput \<Rightarrow> string \<Rightarrow> thrown + Focus list" where
  "makePreferredLivekitFoci isLivekitFocus isLivekitFocusConfig rtcSession livekitAlias =
     (let fromSession =
            (case focusInUse rtcSession of
               None \<Rightarrow> []
             | Some f \<Rightarrow> if isLivekitFocus f then [f] else []);
          fromWellKnown =
            (if truthy (domain rtcSession) then
               (case wellKnownFoci rtcSession of
                  None \<Rightarrow> []
                | Some entries \<Rightarrow>
                    map (\<lambda>wellKnownFocus. wellKnownFocus\<lparr>livekit_alias := Some livekitAlias\<rparr>)
                      (filter isLivekitFocusConfig (dropFalsy entries)))
             else []);
          fromConf =
            (if truthy (urlFromConf rtcSession) then
               [\<lparr>focus_type = ''livekit'',
                 livekit_service_url = urlFromConf rtcSession,
                 livekit_alias = Some livekitAlias\<rparr>]
             else []);
          preferredFoci = fromSession @ fromWellKnown @ fromConf
      in if length preferredFoci = 0
         then Inl (MatrixRTCFocusMissingError (case domain rtcSession of None \<Rightarrow> [] | Some d \<Rightarrow> d))
         else Inr preferredFoci)"

section \<open>AbortHandle (\<^verbatim>\<open>utils/abortHandle.ts\<close>)\<close>

record AbortHandle =
  aborted :: bool

text \<open>\<^verbatim>\<open>new AbortHandle()\<close>: the constructor's default is not aborted.\<close>

definition newAbortHandle :: AbortHandle where
  "newAbortHandle = \<lparr>aborted = False\<rparr>"

definition abort :: "AbortHandle \<Rightarrow> AbortHandle" where
  "abort h = h\<lparr>aborted := True\<rparr>"

definition isAborted :: "AbortHandle \<Rightarrow> bool" where
  "isAborted h = aborted h"

section \<open>The connection controller (\<^verbatim>\<open>livekit/useECConnectionState.ts\<close>)\<close>

text \<open>
  The controller acts on a livekit \<^verbatim>\<open>Room\<close>, which is not part of the repository. Its
  effects are recorded as a trace of events, in program order; what each call of the
  room answers is given by an environment. A local track made by \<^verbatim>\<open>createTracks\<close> is
  known by its identity; a \<^verbatim>\<open>MediaStreamTrack\<close> by the identity of the capture it
  comes from, whether it is a clone, and its \<^verbatim>\<open>enabled\<close> flag.
\<close>

datatype LocalTrack = LocalTrack nat

datatype MediaStreamTrack = MediaStreamTrack nat bool bool

datatype Source = Microphone | Camera | ScreenShare | ScreenShareAudio | Unknown

text \<open>A video track publication of the local participant: \<^verbatim>\<open>t.track\<close> (its
  \<^verbatim>\<open>mediaStreamTrack\<close>, when there is a track) and \<^verbatim>\<open>t.source\<close>.\<close>

record TrackPublication =
  track :: "MediaStreamTrack option"
  source :: Source

datatype level = Debug | Info | Warn | Error

datatype event =
    Log level string
  | SentryMessage string
  | CreateTracks "string option"
  | Mute LocalTrack
  | Stop LocalTrack
  | Connect string string
  | Disconnect
  | PublishMicrophone LocalTrack
  | PublishScreenShare MediaStreamTrack
  | Clone MediaStreamTrack
  | SetSwitchingFocus bool
  | SetIsInDoConnect bool

text \<open>
  The environment of one run: the answers of the room and the moments of teardown.
  \<^item> \<open>micPublicationAtStart\<close>, \<open>micPublicationAtRecheck\<close>: whether
    \<^verbatim>\<open>localParticipant.getTrackPublication(Track.Source.Microphone)\<close> is defined at the
    first and at the second check of \<^verbatim>\<open>doConnect\<close>;
  \<^item> \<open>createTracksResult\<close>, \<open>muteResult\<close>, \<open>connectResult\<close>, \<open>publishMicResult\<close>,
    \<open>publishScreenShareResult\<close>, \<open>disconnectResult\<close>: how the awaited promises settle;
  \<^item> \<open>videoTrackPublications\<close>: the local participant's video publications, in the
    order of the map's values;
  \<^item> \<open>teardownDuringCreateTracks\<close>, \<open>teardownDuringMute\<close>, \<open>teardownDuringConnect\<close>:
    whether the cleanup of the hook (which aborts every handle of the bag) runs while
    the attempt is suspended in the respective await.
\<close>

record RoomEnv =
  micPublicationAtStart :: bool
  createTracksResult :: "LocalTrack list outcome"
  teardownDuringCreateTracks :: bool
  muteResult :: "unit outcome"
  teardownDuringMute :: bool
  micPublicationAtRecheck :: bool
  connectResult :: "unit outcome"
  publishMicResult :: "unit outcome"
  publishScreenShareResult :: "MediaStreamTrack \<Rightarrow> unit outcome"
  teardownDuringConnect :: bool
  disconnectResult :: "unit outcome"
  videoTrackPublications :: "TrackPublication list"

text \<open>\<^verbatim>\<open>sfuConfigValid\<close>: \<^verbatim>\<open>Boolean(sfuConfig?.url) && Boolean(sfuConfig?.jwt)\<close>.\<close>

definition sfuConfigValid :: "SFUConfig option \<Rightarrow> bool" where
  "sfuConfigValid sfuConfig =
     (case sfuConfig of None \<Rightarrow> False | Some c \<Rightarrow> url c \<noteq> [] \<and> jwt c \<noteq> [])"

text \<open>The test of the catch block in \<^verbatim>\<open>connectAndPublish\<close>:
  \<^verbatim>\<open>e instanceof ConnectionError && (e.status === 503 || e.status === 200 || e.status === 429)\<close>.\<close>

fun isCapacityFailure :: "thrown \<Rightarrow> bool" where
  "isCapacityFailure (ConnectionError status) =
     (status = Some 503 \<or> status = Some 200 \<or> status = Some 429)"
| "isCapacityFailure (JsError n m) = False"
| "isCapacityFailure (SFUConfigFetchStatusError s) = False"
| "isCapacityFailure (SFUConfigFetchExceptionError e) = False"
| "isCapacityFailure (MatrixRTCFocusMissingError d) = False"
| "isCapacityFailure InsufficientCapacityError = False"
| "isCapacityFailure (UnknownCallError e) = False"
| "isCapacityFailure (FailToGetOpenIdToken e) = False"
| "isCapacityFailure (NonError v) = False"
| "isCapacityFailure Nullish = False"

text \<open>The \<^verbatim>\<open>.catch\<close> on the publish of one screen-share track: a rejection is logged.\<close>

definition publishFailure :: "RoomEnv \<Rightarrow> MediaStreamTrack \<Rightarrow> event list" where
  "publishFailure env st =
     (case publishScreenShareResult env st of
        Rejected e \<Rightarrow> [Log Error ''Failed to publish screenshare track'']
      | Resolved u \<Rightarrow> [])"

text \<open>
  \<^verbatim>\<open>connectAndPublish(livekitRoom, sfuConfig, micTrack, screenshareTracks)\<close>: the
  outcome of the promise, the trace up to the moment the promise settles, and the
  events that follow later. The loop at the end starts the publish of every screen-share
  track without awaiting it; what the \<^verbatim>\<open>.catch\<close> callbacks log comes after the promise
  of \<^verbatim>\<open>connectAndPublish\<close> has settled and its caller has run on. The analytics tracker
  and the two timeouts passed to \<^verbatim>\<open>connect\<close> are left out of the trace.
\<close>

definition connectAndPublish ::
  "RoomEnv \<Rightarrow> SFUConfig \<Rightarrow> LocalTrack option \<Rightarrow> MediaStreamTrack list
     \<Rightarrow> unit outcome \<times> event list \<times> event list" where
  "connectAndPublish env sfuConfig micTrack screenshareTracks =
     (let t0 = [Log Info ''[Lifecycle] Connecting to livekit room'',
                Connect (url sfuConfig) (jwt sfuConfig)]
      in case connectResult env of
           Rejected e \<Rightarrow>
             (Rejected (if isCapacityFailure e then InsufficientCapacityError else e),
              t0 @ [Log Error ''[Lifecycle] Failed to connect''],
              [])
         | Resolved u \<Rightarrow>
             (let t1 = t0 @ [Log Info ''[Lifecycle] ... connected to livekit room''];
                  shares = [Log Info ''Publishing precreated screenshare tracks'']
                           @ map PublishScreenShare screenshareTracks;
                  later = concat (map (publishFailure env) screenshareTracks)
              in case micTrack of
                   None \<Rightarrow> (Resolved (), t1 @ shares, later)
                 | Some m \<Rightarrow>
                     (let t2 = t1 @ [Log Info ''Publishing precreated mic track'',
                                     PublishMicrophone m]
                      in case publishMicResult env of
                           Rejected e \<Rightarrow> (Rejected e, t2, [])
                         | Resolved u \<Rightarrow> (Resolved (), t2 @ shares, later))))"

text \<open>\<^verbatim>\<open>preCreatedAudioTrack?.stop()\<close>.\<close>

definition stopTrack :: "LocalTrack option \<Rightarrow> event list" where
  "stopTrack preCreatedAudioTrack =
     (case preCreatedAudioTrack of None \<Rightarrow> [] | Some t \<Rightarrow> [Stop t])"

text \<open>The state of the handle when the attempt resumes from an await during which the
  teardown may have run.\<close>

definition afterAwait :: "bool \<Rightarrow> AbortHandle \<Rightarrow> AbortHandle" where
  "afterAwait teardown h = (if teardown then abort h else h)"

text \<open>
  \<^verbatim>\<open>doConnect\<close>, from the second check of the microphone publication to its end: the
  call of \<^verbatim>\<open>connectAndPublish\<close> in its try block, with the check of the handle after
  it and the catch that stops the track and rethrows.
\<close>

definition doConnect_connect ::
  "RoomEnv \<Rightarrow> SFUConfig \<Rightarrow> AbortHandle \<Rightarrow> LocalTrack option \<Rightarrow> event list
     \<Rightarrow> unit outcome \<times> event list" where
  "doConnect_connect env sfuConfig abortHandle preCreatedAudioTrack tr =
     (if micPublicationAtRecheck env then
        (Resolved (),
         tr @ [Log Warn ''Pre-created audio track but participant already appears to have an microphone track: this shouldn't happen!'']
            @ stopTrack preCreatedAudioTrack)
      else
        (let tr1 = tr @ [Log Info ''[Lifecycle] Connecting & publishing''];
             r = connectAndPublish env sfuConfig preCreatedAudioTrack [];
             h = afterAwait (teardownDuringConnect env) abortHandle
         in case fst r of
              Resolved u \<Rightarrow>
                (if isAborted h then
                   (Resolved (),
                    tr1 @ fst (snd r)
                      @ [Log Info ''[Lifecycle] Signal Aborted: Connected but operation was cancelled. Force disconnect'',
                         Disconnect]
                      @ (case disconnectResult env of
                           Rejected e \<Rightarrow> [Log Error ''Failed to disconnect from SFU'']
                         | Resolved u \<Rightarrow> [])
                      @ snd (snd r))
                 else (Resolved (), tr1 @ fst (snd r) @ snd (snd r)))
            | Rejected e \<Rightarrow>
                (Rejected e,
                 tr1 @ fst (snd r) @ stopTrack preCreatedAudioTrack
                   @ [Log Debug ''Stopped precreated audio tracks.''])))"

text \<open>
  \<^verbatim>\<open>doConnect\<close>, from \<^verbatim>\<open>if (!audioEnabled)\<close> on: the awaited
  \<^verbatim>\<open>preCreatedAudioTrack?.mute()\<close> (no call when there is no track; a rejection leaves
  the function at once, nothing catches it) and the check of the handle after it.
\<close>

definition doConnect_mute ::
  "RoomEnv \<Rightarrow> SFUConfig \<Rightarrow> bool \<Rightarrow> AbortHandle \<Rightarrow> LocalTrack option \<Rightarrow> event list
     \<Rightarrow> unit outcome \<times> event list" where
  "doConnect_mute env sfuConfig audioEnabled abortHandle preCreatedAudioTrack tr =
     (if \<not> audioEnabled then
        (let muted = (case preCreatedAudioTrack of
                        None \<Rightarrow> Resolved ()
                      | Some t \<Rightarrow> muteResult env);
             tr1 = tr @ (case preCreatedAudioTrack of None \<Rightarrow> [] | Some t \<Rightarrow> [Mute t]);
             h = afterAwait (teardownDuringMute env) abortHandle
         in case muted of
              Rejected e \<Rightarrow> (Rejected e, tr1)
            | Resolved u \<Rightarrow>
                (if isAborted h then
                   (Resolved (),
                    tr1 @ [Log Info ''[Lifecycle] Signal Aborted: Pre-created audio track but connection aborted'']
                        @ stopTrack preCreatedAudioTrack)
                 else doConnect_connect env sfuConfig h preCreatedAudioTrack tr1))
      else doConnect_connect env sfuConfig abortHandle preCreatedAudioTrack tr)"

text \<open>
  \<^verbatim>\<open>doConnect(livekitRoom, sfuConfig, audioEnabled, initialDeviceId, abortHandle)\<close>.
  The check of the handle after \<^verbatim>\<open>createTracks\<close> stands inside the try block, so it
  is passed over when \<^verbatim>\<open>createTracks\<close> rejects: the catch logs and the function goes on.
\<close>

definition doConnect ::
  "RoomEnv \<Rightarrow> SFUConfig \<Rightarrow> bool \<Rightarrow> string option \<Rightarrow> AbortHandle
     \<Rightarrow> unit outcome \<times> event list" where
  "doConnect env sfuConfig audioEnabled initialDeviceId abortHandle =
     (if micPublicationAtStart env then
        (Resolved (),
         [Log Warn ''Pre-creating audio track but participant already appears to have an microphone track: this shouldn't happen!'',
          SentryMessage ''Pre-creating audio track but participant already appears to have an microphone track!''])
      else
        (let t0 = [Log Info ''Pre-creating microphone track'', CreateTracks initialDeviceId];
             h = afterAwait (teardownDuringCreateTracks env) abortHandle
         in case createTracksResult env of
              Rejected e \<Rightarrow>
                doConnect_mute env sfuConfig audioEnabled h None
                  (t0 @ [Log Error ''Failed to pre-create microphone track''])
            | Resolved audioTracks \<Rightarrow>
                (let preCreatedAudioTrack =
                       (case audioTracks of [] \<Rightarrow> None | t # ts \<Rightarrow> Some t);
                     t1 = t0 @ (if length audioTracks < 1
                                then [Log Info ''Tried to pre-create local audio track but got no tracks'']
                                else [])
                 in if isAborted h then
                      (Resolved (),
                       t1 @ [Log Info ''[Lifecycle] Signal Aborted: Pre-created audio track but connection aborted'']
                          @ stopTrack preCreatedAudioTrack)
                    else
                      doConnect_mute env sfuConfig audioEnabled h preCreatedAudioTrack
                        (t1 @ [Log Info ''Pre-created microphone track'']))))"

text \<open>\<^verbatim>\<open>t.track.mediaStreamTrack.clone()\<close> followed by \<^verbatim>\<open>newTrack.enabled = true\<close>.\<close>

fun cloneEnabled :: "MediaStreamTrack \<Rightarrow> MediaStreamTrack" where
  "cloneEnabled (MediaStreamTrack origin isClone enabled) = MediaStreamTrack origin True True"

text \<open>The first loop of \<^verbatim>\<open>doFocusSwitch\<close>: the publications that have a track and
  whose source is the screen share, in order.\<close>

fun activeScreenShares :: "TrackPublication list \<Rightarrow> MediaStreamTrack list" where
  "activeScreenShares [] = []"
| "activeScreenShares (t # ts) =
     (case track t of
        Some m \<Rightarrow> (if source t = ScreenShare then m # activeScreenShares ts
                   else activeScreenShares ts)
      | None \<Rightarrow> activeScreenShares ts)"

text \<open>
  \<^verbatim>\<open>doFocusSwitch\<close>, a callback of the hook closed over the new \<^verbatim>\<open>sfuConfig\<close>. A
  rejected \<^verbatim>\<open>disconnect\<close> ends it before the reconnect; the \<^verbatim>\<open>finally\<close> resets the
  flag whether \<^verbatim>\<open>connectAndPublish\<close> resolves or rejects. The trace ends with what
  the publishes started by \<^verbatim>\<open>connectAndPublish\<close> log later.
\<close>

definition doFocusSwitch :: "RoomEnv \<Rightarrow> SFUConfig \<Rightarrow> unit outcome \<times> event list" where
  "doFocusSwitch env sfuConfig =
     (let originals = activeScreenShares (videoTrackPublications env);
          screenshareTracks = map cloneEnabled originals;
          t0 = map Clone originals @ [SetSwitchingFocus True, Disconnect]
      in case disconnectResult env of
           Rejected e \<Rightarrow> (Rejected e, t0)
         | Resolved u \<Rightarrow>
             (let r = connectAndPublish env sfuConfig None screenshareTracks
              in (fst r,
                  t0 @ [SetIsInDoConnect True] @ fst (snd r) @ [SetIsInDoConnect False]
                     @ snd (snd r))))"

text \<open>
  The state of the hook that the config effect reads and writes: the ref
  \<^verbatim>\<open>currentSFUConfig\<close> and the \<^verbatim>\<open>error\<close> state. The ref holds
  \<^verbatim>\<open>Object.assign({}, sfuConfig)\<close>: a copy of the config, or the object without
  properties when the config is \<^verbatim>\<open>undefined\<close>, which is \<open>None\<close> here (it is not valid,
  and the effect compares it to nothing).
\<close>

record ControllerState =
  currentSFUConfig :: "SFUConfig option"
  error :: "thrown option"

text \<open>The \<^verbatim>\<open>.catch\<close> on the promise of \<^verbatim>\<open>doConnect\<close>: an \<^verbatim>\<open>ElementCallError\<close> is set
  as it is, another \<^verbatim>\<open>Error\<close> is wrapped, anything else is logged only.\<close>

definition surfaceError :: "thrown \<Rightarrow> thrown option" where
  "surfaceError e =
     (if isElementCallError e then Some e
      else if isError e then Some (UnknownCallError e)
      else None)"

datatype branch = FocusSwitch | InitialConnect | NoBranch

text \<open>The conditions of the config effect, in the order the effect tests them.\<close>

definition effectBranch :: "SFUConfig option \<Rightarrow> SFUConfig option \<Rightarrow> branch" where
  "effectBranch current sfuConfig =
     (if sfuConfigValid sfuConfig \<and> sfuConfigValid current
         \<and> \<not> sfuConfigEquals current sfuConfig then FocusSwitch
      else if \<not> sfuConfigValid current \<and> sfuConfigValid sfuConfig then InitialConnect
      else NoBranch)"

text \<open>
  The config effect of \<^verbatim>\<open>useECConnectionState\<close>, run to the end of the promise it
  starts: the new state and the trace. It ends by storing the copy of the config.
\<close>

definition configEffect ::
  "RoomEnv \<Rightarrow> string option \<Rightarrow> bool \<Rightarrow> ControllerState \<Rightarrow> SFUConfig option
     \<Rightarrow> ControllerState \<times> event list" where
  "configEffect env initialDeviceId initialAudioEnabled st sfuConfig =
     (case effectBranch (currentSFUConfig st) sfuConfig of
        FocusSwitch \<Rightarrow>
          (let r = doFocusSwitch env (the sfuConfig)
           in (st\<lparr>currentSFUConfig := sfuConfig\<rparr>,
               [Log Info ''SFU config changed!''] @ snd r
                 @ (case fst r of
                      Rejected e \<Rightarrow> [Log Error ''Failed to switch focus'']
                    | Resolved u \<Rightarrow> [])))
      | InitialConnect \<Rightarrow>
          (let r = doConnect env (the sfuConfig) initialAudioEnabled initialDeviceId
                     newAbortHandle
           in (st\<lparr>currentSFUConfig := sfuConfig,
                  error := (case fst r of
                              Rejected e \<Rightarrow>
                                (case surfaceError e of Some x \<Rightarrow> Some x | None \<Rightarrow> error st)
                            | Resolved u \<Rightarrow> error st)\<rparr>,
               [SetIsInDoConnect True] @ snd r
                 @ (case fst r of
                      Rejected e \<Rightarrow>
                        (if surfaceError e = None
                         then [Log Error ''Failed to connect to SFU''] else [])
                    | Resolved u \<Rightarrow> [])
                 @ [SetIsInDoConnect False]))
      | NoBranch \<Rightarrow> (st\<lparr>currentSFUConfig := sfuConfig\<rparr>, []))"

text \<open>The events that are calls of the room, of its local participant or of a track.\<close>

fun isRoomCall :: "event \<Rightarrow> bool" where
  "isRoomCall (Log l m) = False"
| "isRoomCall (SentryMessage m) = False"
| "isRoomCall (SetSwitchingFocus b) = False"
| "isRoomCall (SetIsInDoConnect b) = False"
| "isRoomCall (CreateTracks d) = True"
| "isRoomCall (Mute t) = True"
| "isRoomCall (Stop t) = True"
| "isRoomCall (Connect u j) = True"
| "isRoomCall Disconnect = True"
| "isRoomCall (PublishMicrophone t) = True"
| "isRoomCall (PublishScreenShare m) = True"
| "isRoomCall (Clone m) = True"

definition roomCalls :: "event list \<Rightarrow> event list" where
  "roomCalls tr = filter isRoomCall tr"

fun isConnect :: "event \<Rightarrow> bool" where
  "isConnect (Connect u j) = True"
| "isConnect (Log l m) = False"
| "isConnect (SentryMessage m) = False"
| "isConnect (SetSwitchingFocus b) = False"
| "isConnect (SetIsInDoConnect b) = False"
| "isConnect (CreateTracks d) = False"
| "isConnect (Mute t) = False"
| "isConnect (Stop t) = False"
| "isConnect Disconnect = False"
| "isConnect (PublishMicrophone t) = False"
| "isConnect (PublishScreenShare m) = False"
| "isConnect (Clone m) = False"

text \<open>How often the trace calls the transport's \<^verbatim>\<open>connect\<close>.\<close>

definition connectCalls :: "event list \<Rightarrow> nat" where
  "connectCalls tr = length (filter isConnect tr)"

section \<open>The token exchange (\<^verbatim>\<open>livekit/openIDSFU.ts\<close>)\<close>

text \<open>The active focus the exchange is made against: a \<^verbatim>\<open>LivekitFocus\<close>, whose
  \<^verbatim>\<open>livekit_service_url\<close> and \<^verbatim>\<open>livekit_alias\<close> are both present.\<close>

record LivekitFocus =
  service_url :: string
  room_alias :: string

text \<open>The response of \<^verbatim>\<open>fetch\<close>: \<^verbatim>\<open>res.ok\<close>, \<^verbatim>\<open>res.status\<close> and how the promise
  of \<^verbatim>\<open>res.json()\<close> settles.\<close>

record FetchResponse =
  ok :: bool
  status :: int
  json :: "SFUConfig outcome"

text \<open>
  The client and the network: how \<^verbatim>\<open>doNetworkOperationWithRetry\<close> around
  \<^verbatim>\<open>client.getOpenIdToken()\<close> settles (the helper lives in \<^verbatim>\<open>utils/matrix\<close>; only
  its outcome matters here), \<^verbatim>\<open>client.getDeviceId()\<close>, and how the POST settles.
\<close>

record ExchangeEnv =
  openIdTokenResult :: "string outcome"
  deviceId :: "string option"
  fetchResult :: "FetchResponse outcome"

datatype exchangeEvent =
    ExchangeLog level string
  | Post string string string "string option"

text \<open>
  \<^verbatim>\<open>getLiveKitJWT(client, livekitServiceURL, roomName, openIDToken)\<close>. The error thrown
  for a response that is not ok is caught by the function's own catch, like any
  exception of \<^verbatim>\<open>fetch\<close> or \<^verbatim>\<open>res.json()\<close>, and wrapped in a new \<^verbatim>\<open>Error\<close>.
\<close>

definition getLiveKitJWT ::
  "ExchangeEnv \<Rightarrow> string \<Rightarrow> string \<Rightarrow> string \<Rightarrow> SFUConfig outcome \<times> exchangeEvent list" where
  "getLiveKitJWT client livekitServiceURL roomName openIDToken =
     (let thrownInTry =
            (case fetchResult client of
               Rejected e \<Rightarrow> Rejected e
             | Resolved res \<Rightarrow>
                 (if \<not> ok res then Rejected (SFUConfigFetchStatusError (status res))
                  else json res))
      in (case thrownInTry of
            Rejected e \<Rightarrow> Rejected (SFUConfigFetchExceptionError e)
          | Resolved sfuConfig \<Rightarrow> Resolved sfuConfig,
          [Post (livekitServiceURL @ ''/sfu/get'') roomName openIDToken (deviceId client)]))"

text \<open>
  \<^verbatim>\<open>getSFUConfigWithOpenID(client, activeFocus)\<close>: a promise of
  \<^verbatim>\<open>SFUConfig | undefined\<close>. The first try block rethrows a failure of the identity
  token as \<^verbatim>\<open>FailToGetOpenIdToken\<close>; the catch of the second one logs a warning and
  returns \<^verbatim>\<open>undefined\<close>.
\<close>

definition getSFUConfigWithOpenID ::
  "ExchangeEnv \<Rightarrow> LivekitFocus \<Rightarrow> SFUConfig option outcome \<times> exchangeEvent list" where
  "getSFUConfigWithOpenID client activeFocus =
     (case openIdTokenResult client of
        Rejected err \<Rightarrow>
          (Rejected (FailToGetOpenIdToken
                       (if isError err then err else JsError ''Error'' ''Unknown error'')),
           [])
      | Resolved openIdToken \<Rightarrow>
          (let t0 = [ExchangeLog Debug ''Got openID token'',
                     ExchangeLog Info
                       (''Trying to get JWT from call's active focus URL of ''
                        @ service_url activeFocus @ ''...'')];
               r = getLiveKitJWT client (service_url activeFocus) (room_alias activeFocus)
                     openIdToken
           in case fst r of
                Resolved sfuConfig \<Rightarrow>
                  (Resolved (Some sfuConfig),
                   t0 @ snd r @ [ExchangeLog Info ''Got JWT from call's active focus URL.''])
              | Rejected e \<Rightarrow>
                  (Resolved None,
                   t0 @ snd r
                     @ [ExchangeLog Warn
                          (''Failed to get JWT from RTC session's active focus URL of ''
                           @ service_url activeFocus @ ''.'')])))"

section \<open>Mute state synchronisation (\<^verbatim>\<open>livekit/useLivekit.ts\<close>)\<close>

datatype MuteDevice = Microphone | Camera

text \<open>The refs \<^verbatim>\<open>audioMuteUpdating\<close> and \<^verbatim>\<open>videoMuteUpdating\<close>.\<close>

record MuteRefs =
  audioMuteUpdating :: bool
  videoMuteUpdating :: bool

fun updatingRef :: "MuteDevice \<Rightarrow> MuteRefs \<Rightarrow> bool" where
  "updatingRef MuteDevice.Microphone refs = audioMuteUpdating refs"
| "updatingRef MuteDevice.Camera refs = videoMuteUpdating refs"

fun setUpdatingRef :: "MuteDevice \<Rightarrow> bool \<Rightarrow> MuteRefs \<Rightarrow> MuteRefs" where
  "setUpdatingRef MuteDevice.Microphone b refs = refs\<lparr>audioMuteUpdating := b\<rparr>"
| "setUpdatingRef MuteDevice.Camera b refs = refs\<lparr>videoMuteUpdating := b\<rparr>"

text \<open>
  What one chain of \<^verbatim>\<open>syncMuteState\<close> calls reads from outside, by device and by the
  \<^verbatim>\<open>iterCount\<close> of the call that reads it:
  \<^item> \<open>isEnabledAt\<close>: \<^verbatim>\<open>participant.isMicrophoneEnabled\<close> or \<^verbatim>\<open>isCameraEnabled\<close>;
  \<^item> \<open>buttonAt\<close>: \<^verbatim>\<open>buttonEnabled.current.audio\<close> or \<^verbatim>\<open>.video\<close>;
  \<^item> \<open>setEnabledResult\<close>: how \<^verbatim>\<open>setMicrophoneEnabled\<close> or \<^verbatim>\<open>setCameraEnabled\<close>
    settles: resolved with a publication (\<open>True\<close>) or with \<^verbatim>\<open>undefined\<close> (\<open>False\<close>), or
    rejected.
\<close>

record MuteEnv =
  isEnabledAt :: "MuteDevice \<Rightarrow> nat \<Rightarrow> bool"
  buttonAt :: "MuteDevice \<Rightarrow> nat \<Rightarrow> bool"
  setEnabledResult :: "MuteDevice \<Rightarrow> nat \<Rightarrow> bool outcome"

datatype muteEvent =
    SetEnabled MuteDevice bool
  | Sleep nat
  | SetTimeout nat
  | MuteLog string
  | SetIntent MuteDevice bool

text \<open>
  \<^verbatim>\<open>syncMuteState(iterCount, type)\<close>, with the calls it awaits or schedules followed
  to their end: the outcome of its promise, the refs afterwards and the trace.
  \<^item> \<open>body\<close> is the try block: the value it throws if any, the refs and the trace when
    it is left. When the call of the participant rejects, the assignment that resets
    the updating ref is skipped. A rejection of the awaited recursive call is thrown
    inside the try block like any other.
  \<^item> The catch block reads \<^verbatim>\<open>e.name\<close>, which throws for \<^verbatim>\<open>undefined\<close> and \<^verbatim>\<open>null\<close>:
    the promise then rejects with that \<^verbatim>\<open>TypeError\<close>. Only the branch for
    \<^verbatim>\<open>NotAllowedError\<close> resets the updating ref. The retry scheduled by
    \<^verbatim>\<open>setTimeout\<close> is the same function at \<^verbatim>\<open>iterCount + 1\<close>, with a \<^verbatim>\<open>.catch\<close> that
    logs its rejection.
\<close>

function syncMuteState ::
  "MuteEnv \<Rightarrow> nat \<Rightarrow> MuteDevice \<Rightarrow> MuteRefs
     \<Rightarrow> unit outcome \<times> MuteRefs \<times> muteEvent list" where
  "syncMuteState env iterCount type refs =
     (if iterCount > 10 then
        (Resolved (), refs,
         [MuteLog ''Stop trying to sync the input device with current mute state after 10 failed tries''])
      else
        (let devEnabled = isEnabledAt env type iterCount;
             btnEnabled = buttonAt env type iterCount;
             updating = updatingRef type refs
         in if devEnabled \<noteq> btnEnabled \<and> \<not> updating then
              (let body =
                     (case setEnabledResult env type iterCount of
                        Resolved trackPublication \<Rightarrow>
                          (if trackPublication then
                             (let r = syncMuteState env (iterCount + 1) type
                                        (setUpdatingRef type False refs)
                              in (case fst r of Resolved u \<Rightarrow> None | Rejected x \<Rightarrow> Some x,
                                  fst (snd r),
                                  [SetEnabled type btnEnabled, Sleep 100] @ snd (snd r)))
                           else
                             (Some (JsError ''Error''
                                      ''track with new mute state could not be published''),
                              setUpdatingRef type False refs,
                              [SetEnabled type btnEnabled]))
                      | Rejected e \<Rightarrow>
                          (Some e, setUpdatingRef type True refs,
                           [SetEnabled type btnEnabled]))
               in case fst body of
                    None \<Rightarrow> (Resolved (), fst (snd body), snd (snd body))
                  | Some e \<Rightarrow>
                      (if \<not> hasProperties e then
                         (Rejected (JsError ''TypeError'' ''Cannot read properties''),
                          fst (snd body), snd (snd body))
                       else if errorName e = Some ''NotAllowedError'' then
                         (Resolved (),
                          setUpdatingRef type False (fst (snd body)),
                          snd (snd body)
                            @ [MuteLog ''Fatal error while syncing mute state: resetting'',
                               SetIntent type False])
                       else
                         (let retry = syncMuteState env (iterCount + 1) type (fst (snd body))
                          in (Resolved (),
                              fst (snd retry),
                              snd (snd body)
                                @ [MuteLog ''Failed to sync audio mute state with LiveKit (will retry to sync in 1s):'',
                                   SetTimeout 1000]
                                @ snd (snd retry)
                                @ (case fst retry of
                                     Rejected x \<Rightarrow>
                                       [MuteLog ''Failed to sync mute state with LiveKit'']
                                   | Resolved u \<Rightarrow> [])))))
            else (Resolved (), refs, [])))"
  by pat_completeness auto
termination
  by (relation "measure (\<lambda>(env, iterCount, type, refs). 11 - iterCount)") auto

declare syncMuteState.simps [simp del]

fun isSetEnabled :: "muteEvent \<Rightarrow> bool" where
  "isSetEnabled (SetEnabled d b) = True"
| "isSetEnabled (Sleep n) = False"
| "isSetEnabled (SetTimeout n) = False"
| "isSetEnabled (MuteLog m) = False"
| "isSetEnabled (SetIntent d b) = False"

text \<open>The reconciliation attempts of a trace: its calls of \<^verbatim>\<open>setMicrophoneEnabled\<close> or
  \<^verbatim>\<open>setCameraEnabled\<close>.\<close>

definition attempts :: "muteEvent list \<Rightarrow> nat" where
  "attempts tr = length (filter isSetEnabled tr)"

section \<open>Concrete inputs\<close>

text \<open>The guards of matrix-js-sdk, for the concrete runs below: a livekit focus config
  has type \<^verbatim>\<open>livekit\<close> and a service url; a livekit focus has an alias as well.\<close>

definition sdk_isLivekitFocusConfig :: "Focus \<Rightarrow> bool" where
  "sdk_isLivekitFocusConfig f = (focus_type f = ''livekit'' \<and> livekit_service_url f \<noteq> None)"

definition sdk_isLivekitFocus :: "Focus \<Rightarrow> bool" where
  "sdk_isLivekitFocus f = (sdk_isLivekitFocusConfig f \<and> livekit_alias f \<noteq> None)"

definition focusA :: Focus where
  "focusA = \<lparr>focus_type = ''livekit'', livekit_service_url = Some ''http://a'',
             livekit_alias = Some ''alias-a''\<rparr>"

definition focusB :: Focus where
  "focusB = \<lparr>focus_type = ''livekit'', livekit_service_url = Some ''http://b'',
             livekit_alias = None\<rparr>"

definition focusC :: Focus where
  "focusC = \<lparr>focus_type = ''livekit'', livekit_service_url = Some ''http://c'',
             livekit_alias = None\<rparr>"

text \<open>A room on which everything succeeds and no teardown happens: one microphone track
  is created, and the participant's video publications are a screen share, a camera, a
  screen share without a track, and a second screen share.\<close>

definition calmRoom :: RoomEnv where
  "calmRoom =
     \<lparr>micPublicationAtStart = False,
      createTracksResult = Resolved [LocalTrack 0],
      teardownDuringCreateTracks = False,
      muteResult = Resolved (),
      teardownDuringMute = False,
      micPublicationAtRecheck = False,
      connectResult = Resolved (),
      publishMicResult = Resolved (),
      publishScreenShareResult = (\<lambda>m. Resolved ()),
      teardownDuringConnect = False,
      disconnectResult = Resolved (),
      videoTrackPublications =
        [\<lparr>track = Some (MediaStreamTrack 7 False False), source = ScreenShare\<rparr>,
         \<lparr>track = Some (MediaStreamTrack 8 False True), source = Source.Camera\<rparr>,
         \<lparr>track = None, source = ScreenShare\<rparr>,
         \<lparr>track = Some (MediaStreamTrack 9 True True), source = ScreenShare\<rparr>]\<rparr>"

definition configOne :: SFUConfig where
  "configOne = \<lparr>url = ''wss://sfu.one'', jwt = ''token-one''\<rparr>"

definition configTwo :: SFUConfig where
  "configTwo = \<lparr>url = ''wss://sfu.two'', jwt = ''token-two''\<rparr>"

definition waitingState :: ControllerState where
  "waitingState = \<lparr>currentSFUConfig = None, error = None\<rparr>"

text \<open>A focus, and an exchange in which the identity token is issued and the POST is
  answered with status 500.\<close>

definition focusOne :: LivekitFocus where
  "focusOne = \<lparr>service_url = ''https://lk.example.org'', room_alias = ''roomId''\<rparr>"

definition exchange500 :: ExchangeEnv where
  "exchange500 =
     \<lparr>openIdTokenResult = Resolved ''openid-token'',
      deviceId = Some ''DEVICE'',
      fetchResult = Resolved \<lparr>ok = False, status = 500,
                              json = Rejected (JsError ''SyntaxError'' ''no body'')\<rparr>\<rparr>"

text \<open>A device that never follows: the button asks for enabled, the participant reports
  disabled at every check, and every call resolves with a publication.\<close>

definition stuckDevice :: MuteEnv where
  "stuckDevice =
     \<lparr>isEnabledAt = (\<lambda>d n. False),
      buttonAt = (\<lambda>d n. True),
      setEnabledResult = (\<lambda>d n. Resolved True)\<rparr>"

definition idleRefs :: MuteRefs where
  "idleRefs = \<lparr>audioMuteUpdating = False, videoMuteUpdating = False\<rparr>"


definition roomWithLateMicPublication :: RoomEnv where
  "roomWithLateMicPublication = calmRoom\<lparr>micPublicationAtRecheck := True\<rparr>"

definition roomRefusing503 :: RoomEnv where
  "roomRefusing503 = calmRoom\<lparr>connectResult := Rejected (ConnectionError (Some 503))\<rparr>"

definition roomRefusing400 :: RoomEnv where
  "roomRefusing400 = calmRoom\<lparr>connectResult := Rejected (ConnectionError (Some 400))\<rparr>"


definition connectedState :: ControllerState where
  "connectedState = \<lparr>currentSFUConfig = Some configOne, error = None\<rparr>"

section \<open>Properties\<close>

text \<open>
  C9. \<^verbatim>\<open>sfuConfigEquals\<close> is value equality: two present configs are equal iff their
  urls and their jwts match, two absent ones are equal, and an absent one never equals
  a present one; so the test agrees with equality of the optional values.
\<close>

theorem sfuConfigEquals_value_equality:
  "(sfuConfigEquals (Some a) (Some b) \<longleftrightarrow> url a = url b \<and> jwt a = jwt b)
   \<and> sfuConfigEquals None None
   \<and> \<not> sfuConfigEquals None (Some b)
   \<and> \<not> sfuConfigEquals (Some a) None
   \<and> (sfuConfigEquals x y \<longleftrightarrow> x = y)"
  by (cases x; cases y) (auto simp: sfuConfigEquals_def)

text \<open>Published backends in general: with an in-use focus or without one, every published
  object that passes the guard follows in published order, then the fallback.\<close>

lemma makePreferredLivekitFoci_published_order:
  assumes "list_all isLivekitFocusConfig ws" and "d \<noteq> []" and "D \<noteq> []"
    and "case inUse of None \<Rightarrow> True | Some f \<Rightarrow> isLivekitFocus f"
  shows "makePreferredLivekitFoci isLivekitFocus isLivekitFocusConfig
           \<lparr>focusInUse = inUse, domain = Some d,
            wellKnownFoci = Some (map Obj ws), urlFromConf = Some D\<rparr> livekitAlias
         = Inr ((case inUse of None \<Rightarrow> [] | Some f \<Rightarrow> [f])
                @ map (\<lambda>w. w\<lparr>livekit_alias := Some livekitAlias\<rparr>) ws
                @ [\<lparr>focus_type = ''livekit'', livekit_service_url = Some D,
                    livekit_alias = Some livekitAlias\<rparr>])"
proof -
  have drop: "dropFalsy (map Obj ws) = ws"
    by (induction ws) simp_all
  have keep: "filter isLivekitFocusConfig ws = ws"
    using assms(1) by (induction ws) simp_all
  show ?thesis
    using assms(2-4)
    by (cases inUse) (simp_all add: makePreferredLivekitFoci_def truthy_def drop keep)
qed

text \<open>
  C3. With in-use focus \<open>A\<close> reported by the session (a livekit focus), the domain
  publishing \<open>[B, C]\<close> (livekit focus configs) and the fallback url \<open>D\<close> configured,
  the result is exactly \<open>[A, B, C, D]\<close>, where \<open>B\<close> and \<open>C\<close> carry the room-derived alias
  and \<open>D\<close> is the livekit focus built from the configured url and the alias. When the
  session reports no focus, the list starts with \<open>B\<close>: the in-use focus is first iff
  one is reported.
\<close>

theorem makePreferredLivekitFoci_order:
  assumes "isLivekitFocus A"
    and "isLivekitFocusConfig B" and "isLivekitFocusConfig C"
    and "d \<noteq> []" and "D \<noteq> []"
  shows "makePreferredLivekitFoci isLivekitFocus isLivekitFocusConfig
           \<lparr>focusInUse = Some A, domain = Some d,
            wellKnownFoci = Some [Obj B, Obj C], urlFromConf = Some D\<rparr> livekitAlias
         = Inr [A,
                B\<lparr>livekit_alias := Some livekitAlias\<rparr>,
                C\<lparr>livekit_alias := Some livekitAlias\<rparr>,
                \<lparr>focus_type = ''livekit'', livekit_service_url = Some D,
                 livekit_alias = Some livekitAlias\<rparr>]
       \<and> makePreferredLivekitFoci isLivekitFocus isLivekitFocusConfig
           \<lparr>focusInUse = None, domain = Some d,
            wellKnownFoci = Some [Obj B, Obj C], urlFromConf = Some D\<rparr> livekitAlias
         = Inr [B\<lparr>livekit_alias := Some livekitAlias\<rparr>,
                C\<lparr>livekit_alias := Some livekitAlias\<rparr>,
                \<lparr>focus_type = ''livekit'', livekit_service_url = Some D,
                 livekit_alias = Some livekitAlias\<rparr>]"
  using assms by (simp add: makePreferredLivekitFoci_def truthy_def)

theorem makePreferredLivekitFoci_order_witness:
  "makePreferredLivekitFoci sdk_isLivekitFocus sdk_isLivekitFocusConfig
     \<lparr>focusInUse = Some focusA, domain = Some ''example.org'',
      wellKnownFoci = Some [Obj focusB, Obj focusC], urlFromConf = Some ''http://d''\<rparr> ''roomId''
   = Inr [focusA,
          focusB\<lparr>livekit_alias := Some ''roomId''\<rparr>,
          focusC\<lparr>livekit_alias := Some ''roomId''\<rparr>,
          \<lparr>focus_type = ''livekit'', livekit_service_url = Some ''http://d'',
           livekit_alias = Some ''roomId''\<rparr>]"
proof -
  have a: "sdk_isLivekitFocus focusA"
    by (simp add: sdk_isLivekitFocus_def sdk_isLivekitFocusConfig_def focusA_def)
  have b: "sdk_isLivekitFocusConfig focusB"
    by (simp add: sdk_isLivekitFocusConfig_def focusB_def)
  have c: "sdk_isLivekitFocusConfig focusC"
    by (simp add: sdk_isLivekitFocusConfig_def focusC_def)
  have d: "''example.org'' \<noteq> []" and D: "''http://d'' \<noteq> []"
    by simp_all
  from makePreferredLivekitFoci_order
    [where isLivekitFocus = sdk_isLivekitFocus
       and isLivekitFocusConfig = sdk_isLivekitFocusConfig
       and A = focusA and B = focusB and C = focusC
       and livekitAlias = "''roomId''", OF a b c d D]
  show ?thesis by simp
qed

text \<open>
  C4. When the session reports no usable in-use focus, discovery contributes no
  candidate (no domain, no array under the key, or no entry that passes the guard) and
  no fallback url is configured, resolution fails with \<^verbatim>\<open>MatrixRTCFocusMissingError\<close>
  for the domain (the empty string when there is none). On no input at all does it
  return the empty list.
\<close>

theorem makePreferredLivekitFoci_missing:
  assumes "case focusInUse s of None \<Rightarrow> True | Some f \<Rightarrow> \<not> isLivekitFocus f"
    and "\<not> truthy (domain s)
         \<or> (case wellKnownFoci s of None \<Rightarrow> True
             | Some es \<Rightarrow> filter isLivekitFocusConfig (dropFalsy es) = [])"
    and "\<not> truthy (urlFromConf s)"
  shows "makePreferredLivekitFoci isLivekitFocus isLivekitFocusConfig s livekitAlias
           = Inl (MatrixRTCFocusMissingError (case domain s of None \<Rightarrow> [] | Some d \<Rightarrow> d))
         \<and> makePreferredLivekitFoci isLivekitFocus' isLivekitFocusConfig' s' livekitAlias' \<noteq> Inr []"
proof
  show "makePreferredLivekitFoci isLivekitFocus isLivekitFocusConfig s livekitAlias
          = Inl (MatrixRTCFocusMissingError (case domain s of None \<Rightarrow> [] | Some d \<Rightarrow> d))"
    using assms by (auto simp: makePreferredLivekitFoci_def split: option.splits)
next
  show "makePreferredLivekitFoci isLivekitFocus' isLivekitFocusConfig' s' livekitAlias' \<noteq> Inr []"
    by (auto simp: makePreferredLivekitFoci_def Let_def split: if_splits)
qed

theorem makePreferredLivekitFoci_missing_witness:
  "makePreferredLivekitFoci sdk_isLivekitFocus sdk_isLivekitFocusConfig
     \<lparr>focusInUse = None, domain = Some ''example.org'',
      wellKnownFoci = None, urlFromConf = None\<rparr> ''roomId''
   = Inl (MatrixRTCFocusMissingError ''example.org'')"
  using makePreferredLivekitFoci_missing
    [where s = "\<lparr>focusInUse = None, domain = Some ''example.org'',
          wellKnownFoci = None, urlFromConf = None\<rparr>"
       and isLivekitFocus = sdk_isLivekitFocus
       and isLivekitFocusConfig = sdk_isLivekitFocusConfig and livekitAlias = "''roomId''"]
  by (simp add: truthy_def)

subsection \<open>Traces\<close>

lemma connectCalls_Nil [simp]: "connectCalls [] = 0"
  by (simp add: connectCalls_def)

lemma connectCalls_Cons [simp]:
  "connectCalls (e # tr) = (if isConnect e then 1 else 0) + connectCalls tr"
  by (simp add: connectCalls_def)

lemma connectCalls_append [simp]:
  "connectCalls (tr @ tr') = connectCalls tr + connectCalls tr'"
  by (simp add: connectCalls_def)

lemma connectCalls_stopTrack [simp]: "connectCalls (stopTrack p) = 0"
  by (simp add: stopTrack_def split: option.splits)

lemma roomCalls_Nil [simp]: "roomCalls [] = []"
  by (simp add: roomCalls_def)

lemma roomCalls_Cons [simp]:
  "roomCalls (e # tr) = (if isRoomCall e then [e] else []) @ roomCalls tr"
  by (simp add: roomCalls_def)

lemma roomCalls_append [simp]: "roomCalls (tr @ tr') = roomCalls tr @ roomCalls tr'"
  by (simp add: roomCalls_def)

lemma roomCalls_stopTrack [simp]:
  "roomCalls (stopTrack p) = (case p of None \<Rightarrow> [] | Some t \<Rightarrow> [Stop t])"
  by (simp add: stopTrack_def split: option.splits)

lemma roomCalls_Clone [simp]: "roomCalls (map Clone ms) = map Clone ms"
  by (induction ms) simp_all

lemma roomCalls_PublishScreenShare [simp]:
  "roomCalls (map PublishScreenShare ms) = map PublishScreenShare ms"
  by (induction ms) simp_all



text \<open>A call of connect is a call of the room: counting in the projection is the same.\<close>

lemma connectCalls_roomCalls: "connectCalls (roomCalls tr) = connectCalls tr"
proof (induction tr)
  case Nil
  show ?case by simp
next
  case (Cons e tr)
  then show ?case by (cases e) simp_all
qed

subsection \<open>The abort handle\<close>

text \<open>Aborting is idempotent and monotonic; a new handle is not aborted.\<close>

lemma abort_idempotent: "abort (abort h) = abort h"
  by (simp add: abort_def)

lemma isAborted_abort [simp]: "isAborted (abort h)"
  by (simp add: abort_def isAborted_def)

lemma isAborted_new [simp]: "\<not> isAborted newAbortHandle"
  by (simp add: isAborted_def newAbortHandle_def)

lemma isAborted_afterAwait [simp]:
  "isAborted (afterAwait teardown h) = (teardown \<or> isAborted h)"
  by (simp add: afterAwait_def isAborted_def abort_def)

subsection \<open>Connection attempts\<close>

text \<open>The stages of \<^verbatim>\<open>doConnect\<close> on the paths that end before the connect.\<close>

lemma doConnect_connect_recheck:
  assumes "micPublicationAtRecheck env"
  shows "fst (doConnect_connect env sfuConfig h p tr) = Resolved ()
       \<and> roomCalls (snd (doConnect_connect env sfuConfig h p tr))
           = roomCalls tr @ (case p of None \<Rightarrow> [] | Some t \<Rightarrow> [Stop t])"
  using assms by (simp add: doConnect_connect_def)

lemma doConnect_mute_stops:
  assumes "micPublicationAtRecheck env \<or> (\<not> audioEnabled \<and> teardownDuringMute env)"
    and "audioEnabled \<or> p = None \<or> muteResult env = Resolved ()"
  shows "fst (doConnect_mute env sfuConfig audioEnabled h p tr) = Resolved ()
       \<and> roomCalls (snd (doConnect_mute env sfuConfig audioEnabled h p tr))
           = roomCalls tr
             @ (case p of None \<Rightarrow> []
                | Some t \<Rightarrow> if audioEnabled then [Stop t] else [Mute t, Stop t])"
proof (cases audioEnabled)
  case True
  with assms(1) have recheck: "micPublicationAtRecheck env" by simp
  from True doConnect_connect_recheck [OF recheck, of sfuConfig h p tr]
  show ?thesis
    by (simp add: doConnect_mute_def split: option.splits)
next
  case False
  then have muted: "(case p of None \<Rightarrow> Resolved () | Some t \<Rightarrow> muteResult env) = Resolved ()"
    using assms(2) by (auto split: option.splits)
  define tr1 where "tr1 = tr @ (case p of None \<Rightarrow> [] | Some t \<Rightarrow> [Mute t])"
  define h1 where "h1 = afterAwait (teardownDuringMute env) h"
  have calls: "roomCalls tr1 @ (case p of None \<Rightarrow> [] | Some t \<Rightarrow> [Stop t])
      = roomCalls tr @ (case p of None \<Rightarrow> [] | Some t \<Rightarrow> [Mute t, Stop t])"
    by (simp add: tr1_def split: option.splits)
  have unfold: "doConnect_mute env sfuConfig audioEnabled h p tr =
      (if isAborted h1 then
         (Resolved (),
          tr1 @ [Log Info ''[Lifecycle] Signal Aborted: Pre-created audio track but connection aborted'']
              @ stopTrack p)
       else doConnect_connect env sfuConfig h1 p tr1)"
    using False muted by (simp add: doConnect_mute_def Let_def tr1_def h1_def)
  show ?thesis
  proof (cases "isAborted h1")
    case True
    show ?thesis
      using True unfold calls False by (cases p) simp_all
  next
    case live: False
    then have "\<not> teardownDuringMute env" by (simp add: h1_def)
    with assms(1) False have recheck: "micPublicationAtRecheck env" by simp
    show ?thesis
      using live unfold calls False
        doConnect_connect_recheck [OF recheck, of sfuConfig h1 p tr1]
      by (cases p) simp_all
  qed
qed


text \<open>\<^verbatim>\<open>doConnect\<close> up to the end of its first try block, when \<^verbatim>\<open>createTracks\<close>
  resolves.\<close>

lemma doConnect_created:
  assumes "\<not> micPublicationAtStart env" and "createTracksResult env = Resolved audioTracks"
  shows "doConnect env sfuConfig audioEnabled initialDeviceId abortHandle =
      (if teardownDuringCreateTracks env \<or> isAborted abortHandle then
         (Resolved (),
          [Log Info ''Pre-creating microphone track'', CreateTracks initialDeviceId]
            @ (if audioTracks = []
               then [Log Info ''Tried to pre-create local audio track but got no tracks'']
               else [])
            @ [Log Info ''[Lifecycle] Signal Aborted: Pre-created audio track but connection aborted'']
            @ stopTrack (case audioTracks of [] \<Rightarrow> None | t # ts \<Rightarrow> Some t))
       else
         doConnect_mute env sfuConfig audioEnabled
           (afterAwait (teardownDuringCreateTracks env) abortHandle)
           (case audioTracks of [] \<Rightarrow> None | t # ts \<Rightarrow> Some t)
           ([Log Info ''Pre-creating microphone track'', CreateTracks initialDeviceId]
              @ (if audioTracks = []
                 then [Log Info ''Tried to pre-create local audio track but got no tracks'']
                 else [])
              @ [Log Info ''Pre-created microphone track'']))"
  using assms by (simp add: doConnect_def Let_def)




text \<open>
  When \<^verbatim>\<open>createTracks\<close> rejects, no device is acquired and the check of the handle in
  the try block is not reached: with audio enabled there is no further await before the
  connect, which is then called once even though the teardown ran meanwhile (the check
  after the connect disconnects again).
\<close>

lemma doConnect_createTracks_rejected:
  assumes "\<not> micPublicationAtStart env" and "createTracksResult env = Rejected e"
    and "audioEnabled" and "\<not> micPublicationAtRecheck env"
  shows "connectCalls (snd (doConnect env sfuConfig audioEnabled initialDeviceId abortHandle)) = 1"
  using assms
  by (auto simp: doConnect_def doConnect_mute_def doConnect_connect_def connectAndPublish_def
      Let_def split: outcome.splits option.splits)

text \<open>
  C10. When the local participant has a microphone publication as \<^verbatim>\<open>doConnect\<close>
  begins, \<^verbatim>\<open>doConnect\<close> resolves without any call of the room. When it has one at the
  second check (reached without a failing mute), \<^verbatim>\<open>doConnect\<close> resolves without a call
  of the transport's connect, and its calls of the room are the creation of the tracks,
  the mute of the first track created when a start without audio gets that far, and
  the stop of that track: the pre-created track is stopped, and nothing else is.
\<close>

theorem doConnect_existing_microphone_publication:
  assumes "micPublicationAtStart env
           \<or> (micPublicationAtRecheck env
               \<and> (audioEnabled \<or> (\<forall>t ts. createTracksResult env \<noteq> Resolved (t # ts))
                   \<or> muteResult env = Resolved ()))"
  shows "fst (doConnect env sfuConfig audioEnabled initialDeviceId abortHandle) = Resolved ()
       \<and> connectCalls (snd (doConnect env sfuConfig audioEnabled initialDeviceId abortHandle)) = 0
       \<and> roomCalls (snd (doConnect env sfuConfig audioEnabled initialDeviceId abortHandle))
           = (if micPublicationAtStart env then []
              else CreateTracks initialDeviceId #
                (case createTracksResult env of
                   Rejected e \<Rightarrow> []
                 | Resolved audioTracks \<Rightarrow>
                     (case audioTracks of
                        [] \<Rightarrow> []
                      | t # ts \<Rightarrow>
                          if audioEnabled \<or> teardownDuringCreateTracks env
                             \<or> aborted abortHandle
                          then [Stop t] else [Mute t, Stop t])))"
proof -
  define result where
    "result = doConnect env sfuConfig audioEnabled initialDeviceId abortHandle"
  define expected where
    "expected = (if micPublicationAtStart env then []
              else CreateTracks initialDeviceId #
                (case createTracksResult env of
                   Rejected e \<Rightarrow> []
                 | Resolved audioTracks \<Rightarrow>
                     (case audioTracks of
                        [] \<Rightarrow> []
                      | t # ts \<Rightarrow>
                          if audioEnabled \<or> teardownDuringCreateTracks env
                             \<or> aborted abortHandle
                          then [Stop t] else [Mute t, Stop t])))"
  have main: "fst result = Resolved () \<and> roomCalls (snd result) = expected"
  proof (cases "micPublicationAtStart env")
    case True
    then show ?thesis by (simp add: result_def expected_def doConnect_def)
  next
    case False
    with assms have recheck: "micPublicationAtRecheck env"
      and mute: "audioEnabled \<or> (\<forall>t ts. createTracksResult env \<noteq> Resolved (t # ts))
                 \<or> muteResult env = Resolved ()"
      by simp_all
    have a: "micPublicationAtRecheck env \<or> (\<not> audioEnabled \<and> teardownDuringMute env)"
      using recheck by simp
    show ?thesis
    proof (cases "createTracksResult env")
      case (Rejected e)
      have b: "audioEnabled \<or> (None :: LocalTrack option) = None \<or> muteResult env = Resolved ()"
        by simp
      from doConnect_mute_stops [OF a b, of sfuConfig
          "afterAwait (teardownDuringCreateTracks env) abortHandle"
          "[Log Info ''Pre-creating microphone track'', CreateTracks initialDeviceId]
           @ [Log Error ''Failed to pre-create microphone track'']"]
      show ?thesis
        using False Rejected by (simp add: result_def expected_def doConnect_def Let_def)
    next
      case (Resolved audioTracks)
      define p where "p = (case audioTracks of [] \<Rightarrow> None | t # ts \<Rightarrow> Some t)"
      have b: "audioEnabled \<or> p = None \<or> muteResult env = Resolved ()"
        using mute Resolved by (cases audioTracks) (auto simp: p_def)
      note created = doConnect_created [OF False Resolved, of sfuConfig audioEnabled
          initialDeviceId abortHandle]
      show ?thesis
      proof (cases "teardownDuringCreateTracks env \<or> isAborted abortHandle")
        case True
        with created False Resolved show ?thesis
          by (auto simp: result_def expected_def isAborted_def split: list.splits)
      next
        case live: False
        from doConnect_mute_stops [OF a b, of sfuConfig
            "afterAwait (teardownDuringCreateTracks env) abortHandle"
            "[Log Info ''Pre-creating microphone track'', CreateTracks initialDeviceId]
              @ (if audioTracks = []
                 then [Log Info ''Tried to pre-create local audio track but got no tracks'']
                 else [])
              @ [Log Info ''Pre-created microphone track'']"]
          created live False Resolved
        show ?thesis
          by (simp add: result_def expected_def p_def isAborted_def split: list.splits)
      qed
    qed
  qed
  have none: "connectCalls expected = 0"
    by (simp add: expected_def split: outcome.splits list.splits)
  from main have "connectCalls (snd result) = 0"
    using connectCalls_roomCalls [of "snd result"] none by simp
  with main show ?thesis
    unfolding result_def expected_def by simp
qed

theorem doConnect_existing_microphone_publication_witness:
  "fst (doConnect roomWithLateMicPublication configOne False None newAbortHandle) = Resolved ()
   \<and> connectCalls
       (snd (doConnect roomWithLateMicPublication configOne False None newAbortHandle)) = 0
   \<and> roomCalls (snd (doConnect roomWithLateMicPublication configOne False None newAbortHandle))
       = [CreateTracks None, Mute (LocalTrack 0), Stop (LocalTrack 0)]"
proof -
  have 1: "micPublicationAtStart roomWithLateMicPublication
           \<or> (micPublicationAtRecheck roomWithLateMicPublication
               \<and> (False \<or> (\<forall>t ts. createTracksResult roomWithLateMicPublication
                                    \<noteq> Resolved (t # ts))
                   \<or> muteResult roomWithLateMicPublication = Resolved ()))"
    by (simp add: roomWithLateMicPublication_def calmRoom_def)
  have 2: "\<not> micPublicationAtStart roomWithLateMicPublication"
      "createTracksResult roomWithLateMicPublication = Resolved [LocalTrack 0]"
      "\<not> teardownDuringCreateTracks roomWithLateMicPublication"
    by (simp_all add: roomWithLateMicPublication_def calmRoom_def)
  from doConnect_existing_microphone_publication [OF 1, of configOne None newAbortHandle]
  show ?thesis by (simp add: 2 newAbortHandle_def)
qed

subsection \<open>Classification of connect failures\<close>

lemma connectAndPublish_rejected:
  "connectResult env = Rejected e \<Longrightarrow>
   fst (connectAndPublish env sfuConfig micTrack shares)
     = Rejected (if isCapacityFailure e then InsufficientCapacityError else e)"
  by (simp add: connectAndPublish_def)

lemma doConnect_connect_failure:
  assumes "\<not> micPublicationAtRecheck env" and "connectResult env = Rejected e"
  shows "fst (doConnect_connect env sfuConfig h p tr)
     = Rejected (if isCapacityFailure e then InsufficientCapacityError else e)"
  using assms connectAndPublish_rejected [OF assms(2), of sfuConfig p "[]"]
  by (simp add: doConnect_connect_def Let_def)

lemma doConnect_mute_failure:
  assumes "\<not> micPublicationAtRecheck env" and "connectResult env = Rejected e"
    and "\<not> teardownDuringMute env" and "\<not> isAborted h"
    and "audioEnabled \<or> p = None \<or> muteResult env = Resolved ()"
  shows "fst (doConnect_mute env sfuConfig audioEnabled h p tr)
     = Rejected (if isCapacityFailure e then InsufficientCapacityError else e)"
proof (cases audioEnabled)
  case True
  then show ?thesis
    by (simp add: doConnect_mute_def doConnect_connect_failure [OF assms(1,2)])
next
  case False
  then have muted: "(case p of None \<Rightarrow> Resolved () | Some t \<Rightarrow> muteResult env) = Resolved ()"
    using assms(5) by (auto split: option.splits)
  show ?thesis
    using False muted assms(3,4)
    by (simp add: doConnect_mute_def Let_def doConnect_connect_failure [OF assms(1,2)])
qed

lemma doConnect_failure:
  assumes "\<not> micPublicationAtStart env" and "\<not> micPublicationAtRecheck env"
    and "\<not> teardownDuringCreateTracks env" and "\<not> teardownDuringMute env"
    and "\<not> isAborted h"
    and "audioEnabled \<or> (\<forall>t ts. createTracksResult env \<noteq> Resolved (t # ts))
         \<or> muteResult env = Resolved ()"
    and "connectResult env = Rejected e"
  shows "fst (doConnect env sfuConfig audioEnabled initialDeviceId h)
     = Rejected (if isCapacityFailure e then InsufficientCapacityError else e)"
proof (cases "createTracksResult env")
  case (Rejected x)
  show ?thesis
    using assms(1,3,5) Rejected
    by (simp add: doConnect_def Let_def
        doConnect_mute_failure [OF assms(2) assms(7) assms(4)])
next
  case (Resolved audioTracks)
  have m: "audioEnabled \<or> (case audioTracks of [] \<Rightarrow> None | t # ts \<Rightarrow> Some t) = None
           \<or> muteResult env = Resolved ()"
    using assms(6) Resolved by (cases audioTracks) auto
  show ?thesis
    using assms(1,3,5) Resolved m
    by (simp add: doConnect_def Let_def
        doConnect_mute_failure [OF assms(2) assms(7) assms(4)])
qed

lemma isCapacityFailure_iff:
  "isCapacityFailure e \<longleftrightarrow>
     (e = ConnectionError (Some 503) \<or> e = ConnectionError (Some 200)
       \<or> e = ConnectionError (Some 429))"
  by (cases e) auto

lemma surfaceError_capacity [simp]:
  "surfaceError InsufficientCapacityError = Some InsufficientCapacityError"
  by (simp add: surfaceError_def)

text \<open>A focus switch whose connect rejects is a rejected focus switch, whatever the
  disconnect did.\<close>

lemma doFocusSwitch_rejected:
  assumes "connectResult env = Rejected e"
  shows "\<exists>x. fst (doFocusSwitch env sfuConfig) = Rejected x"
  using assms
  by (cases "disconnectResult env")
     (simp_all add: doFocusSwitch_def Let_def connectAndPublish_def)

text \<open>
  C2, as the code has it. When the transport's connect rejects with \<open>e\<close>,
  \<^verbatim>\<open>connectAndPublish\<close> rejects with \<^verbatim>\<open>InsufficientCapacityError\<close> if \<open>e\<close> is a
  \<^verbatim>\<open>ConnectionError\<close> of status 503, 200 or 429, and with \<open>e\<close> itself otherwise. What
  the controller makes of it depends on the branch of the config effect:
  \<^item> on the initial connect, when the attempt gets as far as the connect call, the error
    state becomes \<^verbatim>\<open>InsufficientCapacityError\<close> for those three statuses, \<open>e\<close> itself
    when it is an \<^verbatim>\<open>ElementCallError\<close>, \<^verbatim>\<open>UnknownCallError\<close> wrapping \<open>e\<close> when it is
    another \<^verbatim>\<open>Error\<close> (status 400, for one), and stays as it was when \<open>e\<close> is no
    \<^verbatim>\<open>Error\<close>;
  \<^item> on a focus switch the rejection is logged and the error state stays as it was.
\<close>

theorem connect_failure_classification:
  assumes "connectResult env = Rejected e"
  shows "fst (connectAndPublish env sfuConfig micTrack shares)
           = Rejected (if e = ConnectionError (Some 503) \<or> e = ConnectionError (Some 200)
                          \<or> e = ConnectionError (Some 429)
                       then InsufficientCapacityError else e)
       \<and> (\<not> sfuConfigValid (currentSFUConfig st) \<and> sfuConfigValid (Some sfuConfig)
            \<and> \<not> micPublicationAtStart env \<and> \<not> micPublicationAtRecheck env
            \<and> \<not> teardownDuringCreateTracks env \<and> \<not> teardownDuringMute env
            \<and> (audioEnabled \<or> (\<forall>t ts. createTracksResult env \<noteq> Resolved (t # ts))
                \<or> muteResult env = Resolved ())
          \<longrightarrow> error (fst (configEffect env initialDeviceId audioEnabled st (Some sfuConfig)))
                = (if e = ConnectionError (Some 503) \<or> e = ConnectionError (Some 200)
                      \<or> e = ConnectionError (Some 429)
                   then Some InsufficientCapacityError
                   else if isElementCallError e then Some e
                   else if isError e then Some (UnknownCallError e)
                   else error st))
       \<and> (sfuConfigValid (currentSFUConfig st) \<and> sfuConfigValid (Some sfuConfig)
            \<and> \<not> sfuConfigEquals (currentSFUConfig st) (Some sfuConfig)
          \<longrightarrow> error (fst (configEffect env initialDeviceId audioEnabled st (Some sfuConfig)))
                = error st
              \<and> Log Error ''Failed to switch focus''
                  \<in> set (snd (configEffect env initialDeviceId audioEnabled st
                                 (Some sfuConfig))))"
proof -
  have 1: "fst (connectAndPublish env sfuConfig micTrack shares)
           = Rejected (if e = ConnectionError (Some 503) \<or> e = ConnectionError (Some 200)
                          \<or> e = ConnectionError (Some 429)
                       then InsufficientCapacityError else e)"
    using connectAndPublish_rejected [OF assms, of sfuConfig micTrack shares]
    by (simp only: isCapacityFailure_iff)
  have 2: "error (fst (configEffect env initialDeviceId audioEnabled st (Some sfuConfig)))
                = (if e = ConnectionError (Some 503) \<or> e = ConnectionError (Some 200)
                      \<or> e = ConnectionError (Some 429)
                   then Some InsufficientCapacityError
                   else if isElementCallError e then Some e
                   else if isError e then Some (UnknownCallError e)
                   else error st)"
    if initial: "\<not> sfuConfigValid (currentSFUConfig st)" "sfuConfigValid (Some sfuConfig)"
      and reach: "\<not> micPublicationAtStart env" "\<not> micPublicationAtRecheck env"
        "\<not> teardownDuringCreateTracks env" "\<not> teardownDuringMute env"
        "audioEnabled \<or> (\<forall>t ts. createTracksResult env \<noteq> Resolved (t # ts))
         \<or> muteResult env = Resolved ()"
  proof -
    have br: "effectBranch (currentSFUConfig st) (Some sfuConfig) = InitialConnect"
      using initial by (simp add: effectBranch_def)
    have dc: "fst (doConnect env sfuConfig audioEnabled initialDeviceId newAbortHandle)
       = Rejected (if isCapacityFailure e then InsufficientCapacityError else e)"
      using reach(1-4) isAborted_new reach(5) assms by (rule doConnect_failure)
    have "error (fst (configEffect env initialDeviceId audioEnabled st (Some sfuConfig)))
                = (if isCapacityFailure e then Some InsufficientCapacityError
                   else if isElementCallError e then Some e
                   else if isError e then Some (UnknownCallError e)
                   else error st)"
      by (simp add: configEffect_def br dc surfaceError_def Let_def)
    then show ?thesis by (simp only: isCapacityFailure_iff)
  qed
  have 3: "error (fst (configEffect env initialDeviceId audioEnabled st (Some sfuConfig)))
                = error st
              \<and> Log Error ''Failed to switch focus''
                  \<in> set (snd (configEffect env initialDeviceId audioEnabled st
                                 (Some sfuConfig)))"
    if switch: "sfuConfigValid (currentSFUConfig st)" "sfuConfigValid (Some sfuConfig)"
      "\<not> sfuConfigEquals (currentSFUConfig st) (Some sfuConfig)"
  proof -
    have br: "effectBranch (currentSFUConfig st) (Some sfuConfig) = FocusSwitch"
      using switch by (simp add: effectBranch_def)
    obtain x where x: "fst (doFocusSwitch env sfuConfig) = Rejected x"
      using doFocusSwitch_rejected [OF assms] by blast
    show ?thesis
      by (simp add: configEffect_def br x Let_def)
  qed
  from 1 2 3 show ?thesis by blast
qed

theorem connect_failure_classification_witness:
  "error (fst (configEffect roomRefusing503 None True waitingState (Some configOne)))
     = Some InsufficientCapacityError
   \<and> error (fst (configEffect roomRefusing400 None True waitingState (Some configOne)))
     = Some (UnknownCallError (ConnectionError (Some 400)))
   \<and> fst (connectAndPublish roomRefusing400 configOne None [])
     = Rejected (ConnectionError (Some 400))
   \<and> error (fst (configEffect roomRefusing503 None True connectedState (Some configTwo)))
     = None"
proof -
  have valid: "\<not> sfuConfigValid (currentSFUConfig waitingState)"
      "sfuConfigValid (Some configOne)"
    by (simp_all add: sfuConfigValid_def waitingState_def configOne_def)
  have switch: "sfuConfigValid (currentSFUConfig connectedState)"
      "sfuConfigValid (Some configTwo)"
      "\<not> sfuConfigEquals (currentSFUConfig connectedState) (Some configTwo)"
      "error connectedState = None"
    by (simp_all add: sfuConfigValid_def sfuConfigEquals_def connectedState_def configOne_def
        configTwo_def)
  have a: "connectResult roomRefusing503 = Rejected (ConnectionError (Some 503))"
      "\<not> micPublicationAtStart roomRefusing503" "\<not> micPublicationAtRecheck roomRefusing503"
      "\<not> teardownDuringCreateTracks roomRefusing503" "\<not> teardownDuringMute roomRefusing503"
    by (simp_all add: roomRefusing503_def calmRoom_def)
  have b: "connectResult roomRefusing400 = Rejected (ConnectionError (Some 400))"
      "\<not> micPublicationAtStart roomRefusing400" "\<not> micPublicationAtRecheck roomRefusing400"
      "\<not> teardownDuringCreateTracks roomRefusing400" "\<not> teardownDuringMute roomRefusing400"
    by (simp_all add: roomRefusing400_def calmRoom_def)
  from connect_failure_classification
         [where micTrack = None and shares = "[]" and initialDeviceId = None
            and audioEnabled = True and st = waitingState and sfuConfig = configOne, OF a(1)]
       connect_failure_classification
         [where micTrack = None and shares = "[]" and initialDeviceId = None
            and audioEnabled = True and st = waitingState and sfuConfig = configOne, OF b(1)]
       connect_failure_classification
         [where micTrack = None and shares = "[]" and initialDeviceId = None
            and audioEnabled = True and st = connectedState and sfuConfig = configTwo, OF a(1)]
  show ?thesis
    using valid switch a(2-5) b(2-5) by simp
qed

text \<open>
  The claim as stated fails on a focus switch: the connect to the new focus is refused
  with status 400, \<^verbatim>\<open>connectAndPublish\<close> rejects with that \<^verbatim>\<open>ConnectionError\<close>, the
  connect was called once, and the controller's error state is still empty.
\<close>

theorem focus_switch_failure_not_surfaced:
  "fst (connectAndPublish roomRefusing400 configTwo None [])
     = Rejected (ConnectionError (Some 400))
   \<and> connectCalls (snd (configEffect roomRefusing400 None True connectedState (Some configTwo)))
     = 1
   \<and> error (fst (configEffect roomRefusing400 None True connectedState (Some configTwo)))
     = None"
  by (simp add: configEffect_def effectBranch_def sfuConfigValid_def sfuConfigEquals_def
      connectedState_def configOne_def configTwo_def doFocusSwitch_def connectAndPublish_def
      roomRefusing400_def calmRoom_def Let_def)

subsection \<open>Focus switch\<close>






text \<open>Whatever the room answers, a focus switch creates no track and publishes no
  microphone track.\<close>

lemma doFocusSwitch_no_microphone:
  "CreateTracks d \<notin> set (snd (doFocusSwitch env sfuConfig))
   \<and> PublishMicrophone t \<notin> set (snd (doFocusSwitch env sfuConfig))"
proof -
  define clones where
    "clones = map cloneEnabled (activeScreenShares (videoTrackPublications env))"
  have logs: "e \<in> set (concat (map (publishFailure env) clones)) \<Longrightarrow>
      e = Log Error ''Failed to publish screenshare track''" for e
    by (induction clones) (auto simp: publishFailure_def split: outcome.splits)
  show ?thesis
    using logs
    by (auto simp: doFocusSwitch_def connectAndPublish_def Let_def clones_def
        split: outcome.splits)
qed

subsection \<open>The config effect\<close>

text \<open>
  C7. When the current config is valid and the config supplied equals it by value, the
  config effect takes neither the focus-switch branch nor the initial-connect branch:
  its trace is empty, so the transport's connect is not called, and the state is
  unchanged.
\<close>

theorem configEffect_idempotent:
  assumes "sfuConfigValid (currentSFUConfig st)"
    and "sfuConfigEquals (currentSFUConfig st) sfuConfig"
  shows "effectBranch (currentSFUConfig st) sfuConfig = NoBranch
       \<and> snd (configEffect env initialDeviceId initialAudioEnabled st sfuConfig) = []
       \<and> connectCalls (snd (configEffect env initialDeviceId initialAudioEnabled st sfuConfig)) = 0
       \<and> fst (configEffect env initialDeviceId initialAudioEnabled st sfuConfig) = st"
proof -
  have eq: "currentSFUConfig st = sfuConfig"
    using assms(2) by (cases "currentSFUConfig st"; cases sfuConfig) (auto simp: sfuConfigEquals_def)
  have br: "effectBranch (currentSFUConfig st) sfuConfig = NoBranch"
    using assms by (simp add: effectBranch_def)
  show ?thesis using eq br by (simp add: configEffect_def)
qed

theorem configEffect_idempotent_witness:
  "effectBranch (currentSFUConfig connectedState) (Some configOne) = NoBranch
   \<and> snd (configEffect calmRoom None True connectedState (Some configOne)) = []
   \<and> connectCalls (snd (configEffect calmRoom None True connectedState (Some configOne))) = 0
   \<and> fst (configEffect calmRoom None True connectedState (Some configOne)) = connectedState"
proof -
  have 1: "sfuConfigValid (currentSFUConfig connectedState)"
    by (simp add: sfuConfigValid_def connectedState_def configOne_def)
  have 2: "sfuConfigEquals (currentSFUConfig connectedState) (Some configOne)"
    by (simp add: sfuConfigEquals_def connectedState_def)
  from configEffect_idempotent [OF 1 2, of calmRoom None True]
  show ?thesis .
qed

text \<open>Two runs of the effect with the same valid config: whatever the first one does,
  it stores the config, and the second one does nothing.\<close>

lemma configEffect_stores: "currentSFUConfig (fst (configEffect env d a st c)) = c"
  by (simp add: configEffect_def Let_def split: branch.splits)

lemma configEffect_twice:
  assumes "sfuConfigValid (Some c)"
  shows "snd (configEffect env' d a (fst (configEffect env d a st (Some c))) (Some c)) = []"
proof -
  define st1 where "st1 = fst (configEffect env d a st (Some c))"
  have eq: "currentSFUConfig st1 = Some c"
    unfolding st1_def by (rule configEffect_stores)
  have br: "effectBranch (Some c) (Some c) = NoBranch"
    using assms by (simp add: effectBranch_def sfuConfigEquals_def)
  have "snd (configEffect env' d a st1 (Some c)) = []"
    by (simp add: configEffect_def eq br)
  then show ?thesis by (simp only: st1_def)
qed

subsection \<open>The token exchange\<close>

text \<open>A failure of the identity token is rethrown as \<^verbatim>\<open>FailToGetOpenIdToken\<close>.\<close>

lemma getSFUConfigWithOpenID_identity_failure:
  "openIdTokenResult client = Rejected err \<Longrightarrow>
   fst (getSFUConfigWithOpenID client activeFocus)
     = Rejected (FailToGetOpenIdToken
                   (if isError err then err else JsError ''Error'' ''Unknown error''))"
  by (simp add: getSFUConfigWithOpenID_def)

text \<open>
  C5, as the code has it. When the identity token is obtained and the POST throws or is
  answered with a response that is not ok, \<^verbatim>\<open>getLiveKitJWT\<close> rejects with an \<^verbatim>\<open>Error\<close>
  that wraps the cause, and \<^verbatim>\<open>getSFUConfigWithOpenID\<close> catches it, logs a warning that
  names the url of the focus, and resolves with \<^verbatim>\<open>undefined\<close>: the failure does not
  reach the caller as a rejection.
\<close>

theorem getSFUConfigWithOpenID_failed_post:
  assumes "openIdTokenResult client = Resolved openIdToken"
    and "fetchResult client = Rejected e
         \<or> (fetchResult client = Resolved res \<and> \<not> ok res)"
  shows "fst (getLiveKitJWT client (service_url activeFocus) (room_alias activeFocus)
                openIdToken)
           = Rejected (SFUConfigFetchExceptionError
                         (case fetchResult client of
                            Rejected x \<Rightarrow> x
                          | Resolved r \<Rightarrow> SFUConfigFetchStatusError (status r)))
       \<and> fst (getSFUConfigWithOpenID client activeFocus) = Resolved None
       \<and> ExchangeLog Warn (''Failed to get JWT from RTC session's active focus URL of ''
                           @ service_url activeFocus @ ''.'')
           \<in> set (snd (getSFUConfigWithOpenID client activeFocus))"
proof -
  have jwt: "fst (getLiveKitJWT client (service_url activeFocus) (room_alias activeFocus)
                openIdToken)
           = Rejected (SFUConfigFetchExceptionError
                         (case fetchResult client of
                            Rejected x \<Rightarrow> x
                          | Resolved r \<Rightarrow> SFUConfigFetchStatusError (status r)))"
    using assms(2) by (auto simp: getLiveKitJWT_def)
  show ?thesis
    using assms(1) jwt by (simp add: getSFUConfigWithOpenID_def Let_def)
qed

theorem getSFUConfigWithOpenID_failed_post_witness:
  "fst (getLiveKitJWT exchange500 ''https://lk.example.org'' ''roomId'' ''openid-token'')
     = Rejected (SFUConfigFetchExceptionError (SFUConfigFetchStatusError 500))
   \<and> ExchangeLog Warn
        ''Failed to get JWT from RTC session's active focus URL of https://lk.example.org.''
       \<in> set (snd (getSFUConfigWithOpenID exchange500 focusOne))"
proof -
  have 1: "openIdTokenResult exchange500 = Resolved ''openid-token''"
    by (simp add: exchange500_def)
  have 2: "fetchResult exchange500 = Rejected (NonError [])
           \<or> (fetchResult exchange500
                = Resolved \<lparr>ok = False, status = 500,
                            json = Rejected (JsError ''SyntaxError'' ''no body'')\<rparr>
              \<and> \<not> ok \<lparr>ok = False, status = 500,
                        json = Rejected (JsError ''SyntaxError'' ''no body'')\<rparr>)"
    by (simp add: exchange500_def)
  from getSFUConfigWithOpenID_failed_post [OF 1 2, of focusOne]
  show ?thesis by (simp add: focusOne_def exchange500_def)
qed

text \<open>The exchange answered with status 500 resolves with \<^verbatim>\<open>undefined\<close>; it does not
  reject.\<close>

theorem getSFUConfigWithOpenID_resolves_undefined:
  "fst (getSFUConfigWithOpenID exchange500 focusOne) = Resolved None"
  by (simp add: getSFUConfigWithOpenID_def getLiveKitJWT_def exchange500_def)

subsection \<open>Mute state synchronisation\<close>

lemma attempts_Nil [simp]: "attempts [] = 0"
  by (simp add: attempts_def)

lemma attempts_Cons [simp]:
  "attempts (e # tr) = (if isSetEnabled e then 1 else 0) + attempts tr"
  by (simp add: attempts_def)

lemma attempts_append [simp]: "attempts (tr @ tr') = attempts tr + attempts tr'"
  by (simp add: attempts_def)

lemma updatingRef_set [simp]: "updatingRef type (setUpdatingRef type b refs) = b"
  by (cases type) simp_all

text \<open>One call of \<^verbatim>\<open>syncMuteState\<close>, by cases of what it reads.\<close>

lemma syncMuteState_give_up:
  "iterCount > 10 \<Longrightarrow>
   fst (syncMuteState env iterCount type refs) = Resolved ()
   \<and> attempts (snd (snd (syncMuteState env iterCount type refs))) = 0"
  by (simp add: syncMuteState.simps [of env iterCount type refs])

lemma syncMuteState_in_sync:
  "\<not> (isEnabledAt env type iterCount \<noteq> buttonAt env type iterCount
      \<and> \<not> updatingRef type refs) \<Longrightarrow>
   fst (syncMuteState env iterCount type refs) = Resolved ()
   \<and> attempts (snd (snd (syncMuteState env iterCount type refs))) = 0"
  by (auto simp: syncMuteState.simps [of env iterCount type refs] Let_def)

text \<open>The call resolves with a publication and the awaited recursive call resolves.\<close>

lemma syncMuteState_published:
  "\<not> iterCount > 10 \<Longrightarrow>
   isEnabledAt env type iterCount \<noteq> buttonAt env type iterCount
     \<and> \<not> updatingRef type refs \<Longrightarrow>
   setEnabledResult env type iterCount = Resolved True \<Longrightarrow>
   fst (syncMuteState env (iterCount + 1) type (setUpdatingRef type False refs))
     = Resolved () \<Longrightarrow>
   fst (syncMuteState env iterCount type refs) = Resolved ()
   \<and> attempts (snd (snd (syncMuteState env iterCount type refs)))
     = Suc (attempts (snd (snd (syncMuteState env (iterCount + 1) type
                                  (setUpdatingRef type False refs)))))"
  by (simp add: syncMuteState.simps [of env iterCount type refs] Let_def)

text \<open>The call resolves with a publication and the awaited recursive call rejects with a
  value that has a name other than \<^verbatim>\<open>NotAllowedError\<close>: the catch schedules the retry.\<close>

lemma syncMuteState_published_rejected:
  "\<not> iterCount > 10 \<Longrightarrow>
   isEnabledAt env type iterCount \<noteq> buttonAt env type iterCount
     \<and> \<not> updatingRef type refs \<Longrightarrow>
   setEnabledResult env type iterCount = Resolved True \<Longrightarrow>
   fst (syncMuteState env (iterCount + 1) type (setUpdatingRef type False refs))
     = Rejected x \<Longrightarrow>
   hasProperties x \<Longrightarrow> errorName x \<noteq> Some ''NotAllowedError'' \<Longrightarrow>
   fst (syncMuteState env iterCount type refs) = Resolved ()
   \<and> attempts (snd (snd (syncMuteState env iterCount type refs)))
     = Suc (attempts (snd (snd (syncMuteState env (iterCount + 1) type
                                  (setUpdatingRef type False refs))))
            + attempts (snd (snd (syncMuteState env (iterCount + 1) type
                 (fst (snd (syncMuteState env (iterCount + 1) type
                              (setUpdatingRef type False refs))))))))"
  by (simp add: syncMuteState.simps [of env iterCount type refs] Let_def
      split: outcome.splits)

text \<open>The call resolves with \<^verbatim>\<open>undefined\<close>: the error thrown in the try block is caught
  and the retry scheduled.\<close>

lemma syncMuteState_unpublished:
  "\<not> iterCount > 10 \<Longrightarrow>
   isEnabledAt env type iterCount \<noteq> buttonAt env type iterCount
     \<and> \<not> updatingRef type refs \<Longrightarrow>
   setEnabledResult env type iterCount = Resolved False \<Longrightarrow>
   fst (syncMuteState env iterCount type refs) = Resolved ()
   \<and> attempts (snd (snd (syncMuteState env iterCount type refs)))
     = Suc (attempts (snd (snd (syncMuteState env (iterCount + 1) type
                                  (setUpdatingRef type False refs)))))"
  by (simp add: syncMuteState.simps [of env iterCount type refs] Let_def
      split: outcome.splits)

text \<open>The call rejects with \<^verbatim>\<open>undefined\<close> or \<^verbatim>\<open>null\<close>: reading the name throws, the
  promise rejects and the updating ref stays set.\<close>

lemma syncMuteState_nullish:
  "\<not> iterCount > 10 \<Longrightarrow>
   isEnabledAt env type iterCount \<noteq> buttonAt env type iterCount
     \<and> \<not> updatingRef type refs \<Longrightarrow>
   setEnabledResult env type iterCount = Rejected e \<Longrightarrow>
   \<not> hasProperties e \<Longrightarrow>
   fst (syncMuteState env iterCount type refs)
     = Rejected (JsError ''TypeError'' ''Cannot read properties'')
   \<and> updatingRef type (fst (snd (syncMuteState env iterCount type refs)))
   \<and> attempts (snd (snd (syncMuteState env iterCount type refs))) = 1"
  by (simp add: syncMuteState.simps [of env iterCount type refs] Let_def)

lemma syncMuteState_not_allowed:
  "\<not> iterCount > 10 \<Longrightarrow>
   isEnabledAt env type iterCount \<noteq> buttonAt env type iterCount
     \<and> \<not> updatingRef type refs \<Longrightarrow>
   setEnabledResult env type iterCount = Rejected e \<Longrightarrow>
   hasProperties e \<Longrightarrow> errorName e = Some ''NotAllowedError'' \<Longrightarrow>
   fst (syncMuteState env iterCount type refs) = Resolved ()
   \<and> attempts (snd (snd (syncMuteState env iterCount type refs))) = 1"
  by (simp add: syncMuteState.simps [of env iterCount type refs] Let_def)

lemma syncMuteState_rejected:
  "\<not> iterCount > 10 \<Longrightarrow>
   isEnabledAt env type iterCount \<noteq> buttonAt env type iterCount
     \<and> \<not> updatingRef type refs \<Longrightarrow>
   setEnabledResult env type iterCount = Rejected e \<Longrightarrow>
   hasProperties e \<Longrightarrow> errorName e \<noteq> Some ''NotAllowedError'' \<Longrightarrow>
   fst (syncMuteState env iterCount type refs) = Resolved ()
   \<and> attempts (snd (snd (syncMuteState env iterCount type refs)))
     = Suc (attempts (snd (snd (syncMuteState env (iterCount + 1) type
                                  (setUpdatingRef type True refs)))))"
  by (simp add: syncMuteState.simps [of env iterCount type refs] Let_def
      split: outcome.splits)

text \<open>
  The recursion is bounded whatever the device does: a chain started at
  \<^verbatim>\<open>iterCount\<close> makes at most \<open>11 - iterCount\<close> attempts, so at most 11 from 0. A call
  that rejects has made one attempt and left the updating ref set.
\<close>

lemma syncMuteState_invariant:
  "attempts (snd (snd (syncMuteState env iterCount type refs))) \<le> 11 - iterCount
   \<and> (fst (syncMuteState env iterCount type refs) \<noteq> Resolved () \<longrightarrow>
        fst (syncMuteState env iterCount type refs)
          = Rejected (JsError ''TypeError'' ''Cannot read properties'')
        \<and> attempts (snd (snd (syncMuteState env iterCount type refs))) = 1
        \<and> updatingRef type (fst (snd (syncMuteState env iterCount type refs)))
        \<and> iterCount \<le> 10)"
proof (induction "11 - iterCount" arbitrary: iterCount refs)
  case 0
  then have "iterCount > 10" by simp
  then show ?case using syncMuteState_give_up [of iterCount env type refs] by simp
next
  case (Suc k)
  then have small: "\<not> iterCount > 10" and k: "k = 11 - (iterCount + 1)"
    by simp_all
  have bound: "Suc k = 11 - iterCount" by fact
  note IH = Suc.hyps(1) [OF k]
  show ?case
  proof (cases "isEnabledAt env type iterCount \<noteq> buttonAt env type iterCount
                \<and> \<not> updatingRef type refs")
    case False
    then show ?thesis using syncMuteState_in_sync [of env type iterCount refs] by simp
  next
    case differ: True
    show ?thesis
    proof (cases "setEnabledResult env type iterCount")
      case (Rejected e)
      show ?thesis
      proof (cases "hasProperties e")
        case False
        from syncMuteState_nullish [OF small differ Rejected False] small bound
        show ?thesis by simp
      next
        case True
        show ?thesis
        proof (cases "errorName e = Some ''NotAllowedError''")
          case allowed: True
          from syncMuteState_not_allowed [OF small differ Rejected True allowed] bound
          show ?thesis by simp
        next
          case False
          have "attempts (snd (snd (syncMuteState env (iterCount + 1) type
                  (setUpdatingRef type True refs)))) = 0"
            using syncMuteState_in_sync [of env type "iterCount + 1"
                "setUpdatingRef type True refs"] by simp
          with syncMuteState_rejected [OF small differ Rejected True False] bound
          show ?thesis by simp
        qed
      qed
    next
      case (Resolved b)
      show ?thesis
      proof (cases b)
        case False
        with Resolved have undef: "setEnabledResult env type iterCount = Resolved False"
          by simp
        from syncMuteState_unpublished [OF small differ undef]
          IH [of "setUpdatingRef type False refs"] k bound
        show ?thesis by simp
      next
        case True
        with Resolved have pub: "setEnabledResult env type iterCount = Resolved True"
          by simp
        define inner where
          "inner = syncMuteState env (iterCount + 1) type (setUpdatingRef type False refs)"
        note inv = IH [of "setUpdatingRef type False refs", folded inner_def]
        show ?thesis
        proof (cases "fst inner = Resolved ()")
          case ok: True
          from syncMuteState_published [OF small differ pub ok [unfolded inner_def]]
            inv k bound
          show ?thesis by (simp add: inner_def)
        next
          case failed: False
          with inv have x: "fst inner = Rejected (JsError ''TypeError'' ''Cannot read properties'')"
            and one: "attempts (snd (snd inner)) = 1"
            and stuck: "updatingRef type (fst (snd inner))"
            and low: "iterCount + 1 \<le> 10"
            by simp_all
          have none: "attempts (snd (snd (syncMuteState env (iterCount + 1) type
                         (fst (snd inner))))) = 0"
            using syncMuteState_in_sync [of env type "iterCount + 1" "fst (snd inner)"] stuck
            by simp
          from syncMuteState_published_rejected
                 [OF small differ pub x [unfolded inner_def]]
            one none low
          show ?thesis by (simp add: inner_def)
        qed
      qed
    qed
  qed
qed

lemma syncMuteState_attempts_bounded:
  "attempts (snd (snd (syncMuteState env iterCount type refs))) \<le> 11 - iterCount"
  using syncMuteState_invariant [of env iterCount type refs] by simp

text \<open>A device that never converges and whose calls always resolve exhausts the bound:
  the chain resolves after exactly \<open>11 - iterCount\<close> attempts.\<close>

lemma syncMuteState_never_converging:
  assumes differ: "\<And>n. isEnabledAt env type n \<noteq> buttonAt env type n"
    and resolves: "\<And>n. \<exists>b. setEnabledResult env type n = Resolved b"
    and idle: "\<not> updatingRef type refs"
  shows "fst (syncMuteState env iterCount type refs) = Resolved ()
       \<and> attempts (snd (snd (syncMuteState env iterCount type refs))) = 11 - iterCount"
  using idle
proof (induction "11 - iterCount" arbitrary: iterCount refs)
  case 0
  then have "iterCount > 10" by simp
  then show ?case using syncMuteState_give_up [of iterCount env type refs] by simp
next
  case (Suc k)
  then have small: "\<not> iterCount > 10" and k: "k = 11 - (iterCount + 1)"
    by simp_all
  obtain b where b: "setEnabledResult env type iterCount = Resolved b"
    using resolves by blast
  have cond: "isEnabledAt env type iterCount \<noteq> buttonAt env type iterCount
              \<and> \<not> updatingRef type refs"
    using differ Suc.prems by simp
  have inner: "fst (syncMuteState env (iterCount + 1) type (setUpdatingRef type False refs))
        = Resolved ()
      \<and> attempts (snd (snd (syncMuteState env (iterCount + 1) type
          (setUpdatingRef type False refs)))) = k"
    using Suc.hyps(1) [OF k, of "setUpdatingRef type False refs"] k by simp
  show ?case
  proof (cases b)
    case True
    with b have pub: "setEnabledResult env type iterCount = Resolved True" by simp
    from syncMuteState_published [OF small cond pub] inner Suc.hyps(2)
    show ?thesis by simp
  next
    case False
    with b have undef: "setEnabledResult env type iterCount = Resolved False" by simp
    from syncMuteState_unpublished [OF small cond undef] inner Suc.hyps(2)
    show ?thesis by simp
  qed
qed

text \<open>
  C8. The claim allows at most 10 reconciliation attempts. The guard of the code is
  \<^verbatim>\<open>iterCount > 10\<close> and the chain starts at 0: on a device that never follows the
  button, \<^verbatim>\<open>setMicrophoneEnabled\<close> is called 11 times (once for each \<^verbatim>\<open>iterCount\<close>
  from 0 to 10) before the call that logs and gives up.
\<close>

theorem syncMuteState_stuck_device_attempts:
  "attempts (snd (snd (syncMuteState stuckDevice 0 MuteDevice.Microphone idleRefs))) = 11"
proof -
  have 1: "isEnabledAt stuckDevice MuteDevice.Microphone n
           \<noteq> buttonAt stuckDevice MuteDevice.Microphone n" for n
    by (simp add: stuckDevice_def)
  have 2: "\<exists>b. setEnabledResult stuckDevice MuteDevice.Microphone n = Resolved b" for n
    by (rule exI [of _ True]) (simp add: stuckDevice_def)
  have 3: "\<not> updatingRef MuteDevice.Microphone idleRefs"
    by (simp add: idleRefs_def)
  from syncMuteState_never_converging
         [of stuckDevice MuteDevice.Microphone idleRefs 0, OF 1 2 3]
  show ?thesis by simp
qed

end
